theory Spec2Isabelle
  imports Main "HOL-Library.AList"
begin

section \<open>JavaScript primitives used by the sources\<close>

text \<open>
  Strings are lists of 8-bit code units. The character classes below are those of the
  ECMAScript regular expressions and string methods that the sources use, restricted to
  that range.
\<close>

definition isUpperAZ :: "char \<Rightarrow> bool" where
  \<comment> \<open>the class \<^verbatim>\<open>[A-Z]\<close>\<close>
  "isUpperAZ c = List.member ''ABCDEFGHIJKLMNOPQRSTUVWXYZ'' c"

definition isDigit :: "char \<Rightarrow> bool" where
  \<comment> \<open>the classes \<^verbatim>\<open>[0-9]\<close> and \<^verbatim>\<open>\d\<close>\<close>
  "isDigit c = List.member ''0123456789'' c"

definition isLineTerminator :: "char \<Rightarrow> bool" where
  \<comment> \<open>line feed and carriage return\<close>
  "isLineTerminator c = (c = CHR 0x0A \<or> c = CHR 0x0D)"

definition isWhiteSpace :: "char \<Rightarrow> bool" where
  \<comment> \<open>the class \<^verbatim>\<open>\s\<close>: tab, line feed, vertical tab, form feed, carriage return,
      space, no-break space\<close>
  "isWhiteSpace c =
     (c = CHR 0x09 \<or> c = CHR 0x0A \<or> c = CHR 0x0B \<or> c = CHR 0x0C \<or> c = CHR 0x0D
      \<or> c = CHR 0x20 \<or> c = CHR 0xA0)"

definition isLatin1Lower :: "char \<Rightarrow> bool" where
  \<comment> \<open>the lower-case letters 0xE0 to 0xFE; 0xF7 is the division sign\<close>
  "isLatin1Lower c =
     (224 \<le> (of_char c :: nat) \<and> (of_char c :: nat) \<le> 254 \<and> (of_char c :: nat) \<noteq> 247)"

definition isLatin1Upper :: "char \<Rightarrow> bool" where
  \<comment> \<open>the upper-case letters 0xC0 to 0xDE; 0xD7 is the multiplication sign\<close>
  "isLatin1Upper c =
     (192 \<le> (of_char c :: nat) \<and> (of_char c :: nat) \<le> 222 \<and> (of_char c :: nat) \<noteq> 215)"

definition upperChar :: "char \<Rightarrow> char" where
  "upperChar c =
     (case map_of (zip ''abcdefghijklmnopqrstuvwxyz'' ''ABCDEFGHIJKLMNOPQRSTUVWXYZ'') c of
        Some u \<Rightarrow> u
      | None \<Rightarrow> if isLatin1Lower c then char_of ((of_char c :: nat) - 32) else c)"

definition lowerChar :: "char \<Rightarrow> char" where
  "lowerChar c =
     (case map_of (zip ''ABCDEFGHIJKLMNOPQRSTUVWXYZ'' ''abcdefghijklmnopqrstuvwxyz'') c of
        Some l \<Rightarrow> l
      | None \<Rightarrow> if isLatin1Upper c then char_of ((of_char c :: nat) + 32) else c)"

definition toUpperCase :: "string \<Rightarrow> string" where
  \<comment> \<open>\<^verbatim>\<open>String.prototype.toUpperCase\<close>: the letters a to z and 0xE0 to 0xFE go to their
      capitals, the sharp s 0xDF becomes SS. The upper case of 0xB5 and of 0xFF lies
      outside the 8-bit range; these two code units are kept.\<close>
  "toUpperCase s = concat (map (\<lambda>c. if c = CHR 0xDF then ''SS'' else [upperChar c]) s)"

definition toLowerCase :: "string \<Rightarrow> string" where
  \<comment> \<open>\<^verbatim>\<open>String.prototype.toLowerCase\<close>: the letters A to Z and 0xC0 to 0xDE go to their
      small letters; every other code unit is kept\<close>
  "toLowerCase s = map lowerChar s"

fun split :: "char \<Rightarrow> string \<Rightarrow> string list" where
  \<comment> \<open>\<^verbatim>\<open>s.split(c)\<close> for a one-character separator: never the empty array, and two
      adjacent separators enclose an empty token\<close>
  "split c [] = ['''']"
| "split c (x # xs) =
     (if x = c then [] # split c xs
      else (let r = split c xs in (x # hd r) # tl r))"

function splitWs :: "string \<Rightarrow> string list" where
  \<comment> \<open>\<^verbatim>\<open>s.split(/\s+/)\<close>: a maximal run of white space is one separator; white space at
      either end leaves an empty token there\<close>
  "splitWs [] = ['''']"
| "splitWs (x # xs) =
     (if isWhiteSpace x then [] # splitWs (dropWhile isWhiteSpace xs)
      else (let r = splitWs xs in (x # hd r) # tl r))"
  by pat_completeness auto
termination
  by (relation "measure length") (auto simp: length_dropWhile_le less_Suc_eq_le)

fun join :: "string \<Rightarrow> string list \<Rightarrow> string" where
  \<comment> \<open>\<^verbatim>\<open>xs.join(sep)\<close>\<close>
  "join sep [] = []"
| "join sep [x] = x"
| "join sep (x # y # ys) = x @ sep @ join sep (y # ys)"

definition includes_str :: "string list \<Rightarrow> string option \<Rightarrow> bool" where
  \<comment> \<open>\<^verbatim>\<open>xs.includes(v)\<close> on an array of strings; \<open>None\<close> is \<^verbatim>\<open>undefined\<close>, which no
      string equals\<close>
  "includes_str xs v = (case v of None \<Rightarrow> False | Some s \<Rightarrow> List.member xs s)"

definition truthy :: "string option \<Rightarrow> bool" where
  \<comment> \<open>a string is truthy unless it is empty; \<^verbatim>\<open>undefined\<close> is falsy\<close>
  "truthy v = (case v of None \<Rightarrow> False | Some s \<Rightarrow> s \<noteq> [])"

definition toString :: "string option \<Rightarrow> string" where
  "toString v = (case v of None \<Rightarrow> ''undefined'' | Some s \<Rightarrow> s)"

definition test_digit :: "string \<Rightarrow> bool" where
  \<comment> \<open>\<^verbatim>\<open>/^[0-9]$/.test(s)\<close>: no flags, so \<^verbatim>\<open>^\<close> and \<^verbatim>\<open>$\<close> are the two ends of the input\<close>
  "test_digit s = (case s of [c] \<Rightarrow> isDigit c | _ \<Rightarrow> False)"

definition basename :: "string \<Rightarrow> string" where
  \<comment> \<open>\<^verbatim>\<open>path.basename(p)\<close> (POSIX): trailing slashes are dropped, then the part after
      the last slash is taken\<close>
  "basename p =
     rev (takeWhile (\<lambda>c. c \<noteq> CHR ''/'') (dropWhile (\<lambda>c. c = CHR ''/'') (rev p)))"


section \<open>Errors, the file system and the host\<close>

datatype error =
    Error string        \<comment> \<open>\<^verbatim>\<open>new Error(message)\<close> thrown by the sources\<close>
  | TypeError           \<comment> \<open>a method call on \<^verbatim>\<open>undefined\<close>\<close>
  | SystemError string  \<comment> \<open>a failed file-system call, tagged with the call\<close>
  | WhichError string   \<comment> \<open>\<^verbatim>\<open>io.which(tool, true)\<close> did not find the tool\<close>
  | ExecError string    \<comment> \<open>\<^verbatim>\<open>exec.getExecOutput\<close> rejected\<close>

datatype Stats = RegularFile | Directory | Other

definition isFile :: "Stats \<Rightarrow> bool" where
  "isFile st = (st = RegularFile)"

definition isDirectory :: "Stats \<Rightarrow> bool" where
  \<comment> \<open>the call \<^verbatim>\<open>stat.isDirectory()\<close>\<close>
  "isDirectory st = (st = Directory)"

definition isDirectory_member :: "Stats \<Rightarrow> bool" where
  \<comment> \<open>the truth value of \<^verbatim>\<open>stat.isDirectory\<close> read without calling it: the method
      object itself, truthy whatever the entry is\<close>
  "isDirectory_member st = True"

record Dirent =
  name :: string
  kind :: Stats

text \<open>
  The file system as the sources query it. \<open>stat\<close> follows symbolic links and is \<open>None\<close>
  where \<^verbatim>\<open>fs.stat\<close> fails; \<open>readdir\<close> lists a directory with entry types; \<open>realpath\<close> is
  the canonical absolute path, \<open>None\<close> where resolution fails; \<open>writeFile\<close> tells
  whether a write to the path succeeds.
\<close>

record FileSystem =
  stat :: "string \<Rightarrow> Stats option"
  readdir :: "string \<Rightarrow> Dirent list option"
  realpath :: "string \<Rightarrow> string option"
  existsSync :: "string \<Rightarrow> bool"
  writeFile :: "string \<Rightarrow> bool"

datatype Stream = StdOut | StdErr

record ExecOptions =
  cwd :: "string option"
  env :: "(string \<times> string) list option"
  silent :: bool
  ignoreReturnCode :: bool

record ExecOutput =
  exitCode :: int
  stdout :: string
  stderr :: string

text \<open>
  A finished child process: its exit code, both captured streams, and the lines in the
  order in which the line listeners receive them.
\<close>

record Process =
  result :: ExecOutput
  lines :: "(Stream \<times> string) list"

record Host =
  which :: "string \<Rightarrow> string option"
  spawn :: "string \<Rightarrow> string list \<Rightarrow> ExecOptions \<Rightarrow> Process option"

definition defaultOptions :: ExecOptions where
  "defaultOptions = \<lparr>cwd = None, env = None, silent = False, ignoreReturnCode = False\<rparr>"

text \<open>
  \<^verbatim>\<open>exec.getExecOutput\<close> of @actions/exec 1.1.1, the version that package.json pins.
  The library is a dependency, not one of the sources; the definition follows its
  documented behaviour. Each line goes to the listener as it is produced. A process
  that cannot be started rejects; so does a non-zero exit code unless the option
  \<open>ignoreReturnCode\<close> is set (its documentation: "defaults to failing on non zero").
\<close>

definition getExecOutput ::
  "Host \<Rightarrow> string \<Rightarrow> string list \<Rightarrow> ExecOptions \<Rightarrow> (Stream \<Rightarrow> string \<Rightarrow> 's \<Rightarrow> 's) \<Rightarrow> 's
     \<Rightarrow> (error + ExecOutput) \<times> 's" where
  "getExecOutput h commandLine args options listener s =
     (case spawn h commandLine args options of
        None \<Rightarrow> (Inl (ExecError ''spawn''), s)
      | Some p \<Rightarrow>
          (let s' = fold (\<lambda>(stream, line). listener stream line) (lines p) s
           in if exitCode (result p) \<noteq> 0 \<and> \<not> ignoreReturnCode options
              then (Inl (ExecError ''exit code''), s')
              else (Inr (result p), s')))"


section \<open>pi-gen-config.ts\<close>

text \<open>
  \<open>writeToFile\<close> enumerates the own property names of the configuration object, so the
  configuration is modelled as that object: the list of its string-valued properties in
  property order. A property that is missing or holds \<^verbatim>\<open>undefined\<close> is not in the list;
  the sources cannot tell the two apart. Reading a property is \<open>getProp\<close>, assigning one
  is \<open>AList.update\<close>: an existing property keeps its place, a new one goes last.

  Calls of \<^verbatim>\<open>core.debug\<close> are left out, here and in the class \<open>PiGen\<close>: they write to
  the debug log and nothing else.
\<close>

type_synonym PiGenConfig = "(string \<times> string) list"

definition getProp :: "PiGenConfig \<Rightarrow> string \<Rightarrow> string option" where
  "getProp config p = map_of config p"

definition getOwnPropertyNames :: "PiGenConfig \<Rightarrow> string list" where
  "getOwnPropertyNames config = map fst config"

definition fieldNames :: "string list" where
  \<comment> \<open>the fields of the interface, in declaration order\<close>
  "fieldNames =
     [''imgName'', ''release'', ''deployCompression'', ''compressionLevel'',
      ''localeDefault'', ''targetHostname'', ''keyboardKeymap'', ''keyboardLayout'',
      ''timezoneDefault'', ''firstUserName'', ''firstUserPass'', ''wpaEssid'',
      ''wpaPassword'', ''wpaCountry'', ''enableSsh'', ''pubkeySshFirstUser'',
      ''pubkeyOnlySsh'', ''stageList'', ''useQcow2'']"

definition isPiGenConfig :: "PiGenConfig \<Rightarrow> bool" where
  \<comment> \<open>an object of the interface: each property once, and only declared ones\<close>
  "isPiGenConfig config =
     (distinct (map fst config) \<and> list_all (List.member fieldNames) (map fst config))"

definition DEFAULT_CONFIG :: PiGenConfig where
  "DEFAULT_CONFIG =
     [(''imgName'', ''test''),
      (''release'', ''bullseye''),
      (''deployCompression'', ''zip''),
      (''compressionLevel'', ''6''),
      (''localeDefault'', ''en_GB.UTF-8''),
      (''targetHostname'', ''raspberrypi''),
      (''keyboardKeymap'', ''gb''),
      (''keyboardLayout'', ''English (UK)''),
      (''timezoneDefault'', ''Europe/London''),
      (''firstUserName'', ''pi''),
      (''enableSsh'', ''0''),
      (''pubkeyOnlySsh'', ''0''),
      (''stageList'', ''stage*''),
      (''useQcow2'', ''1'')]"

definition camelCaseToSnakeCase :: "string \<Rightarrow> string" where
  "camelCaseToSnakeCase label =
     toUpperCase (concat (map (\<lambda>letter. if isUpperAZ letter then [CHR ''_'', letter] else [letter]) label))"

text \<open>
  The loop of \<open>absolutizePiGenStages\<close>: \<open>stages[i]\<close> is overwritten with its real path,
  for \<open>i\<close> from the given index up to the length; the first failing \<^verbatim>\<open>fs.realpath\<close>
  rejects. The parameter \<open>vs\<close> is \<^verbatim>\<open>Object.values(PiGenStages)\<close>, the known stage
  identifiers.
\<close>

function absolutizeLoop ::
  "string list \<Rightarrow> FileSystem \<Rightarrow> string \<Rightarrow> nat \<Rightarrow> string list \<Rightarrow> error + string list" where
  "absolutizeLoop vs fs piGenDirectory i stages =
     (if i < length stages then
        (case realpath fs
                (if List.member vs (stages ! i) then piGenDirectory @ ''/'' @ stages ! i
                 else stages ! i) of
           None \<Rightarrow> Inl (SystemError ''realpath'')
         | Some p \<Rightarrow> absolutizeLoop vs fs piGenDirectory (Suc i) (stages[i := p]))
      else Inr stages)"
  by pat_completeness auto
termination
  by (relation "measure (\<lambda>(vs, fs, d, i, stages). length stages - i)") auto

declare absolutizeLoop.simps [simp del]

definition absolutizePiGenStages ::
  "string list \<Rightarrow> FileSystem \<Rightarrow> PiGenConfig \<Rightarrow> string \<Rightarrow> error + PiGenConfig" where
  "absolutizePiGenStages vs fs config piGenDirectory =
     (case getProp config ''stageList'' of
        None \<Rightarrow> Inl TypeError
      | Some stageList \<Rightarrow>
          (case absolutizeLoop vs fs piGenDirectory 0 (split CHR '' '' stageList) of
             Inl e \<Rightarrow> Inl e
           | Inr stages \<Rightarrow> Inr (AList.update ''stageList'' (join '' '' stages) config)))"

datatype Event =
    WriteFile string string   \<comment> \<open>path and content\<close>
  | RmRF string
  | Info string
  | ErrorLine string
  | Warning string

definition configLine :: "PiGenConfig \<Rightarrow> string \<Rightarrow> string" where
  \<open>configLine config p = camelCaseToSnakeCase p @ ''="'' @ toString (getProp config p) @ ''"''\<close>

definition configContent :: "PiGenConfig \<Rightarrow> string" where
  "configContent config =
     join [CHR 0x0A]
       (map (configLine config)
          (filter (\<lambda>p. truthy (getProp config p)) (getOwnPropertyNames config)))"

text \<open>
  \<open>writeToFile\<close> returns its outcome, the configuration object as it leaves it (the
  caller's object is the one rewritten) and the write it performed.
\<close>

definition writeToFile ::
  "string list \<Rightarrow> FileSystem \<Rightarrow> PiGenConfig \<Rightarrow> string \<Rightarrow> string
     \<Rightarrow> (error + unit) \<times> PiGenConfig \<times> Event list" where
  "writeToFile vs fs config piGenDirectory file =
     (case absolutizePiGenStages vs fs config piGenDirectory of
        Inl e \<Rightarrow> (Inl e, config, [])
      | Inr config' \<Rightarrow>
          if writeFile fs file
          then (Inr (), config', [WriteFile file (configContent config')])
          else (Inl (SystemError ''writeFile''), config', []))"

text \<open>The loop over the stage list at the end of \<open>validateConfig\<close>.\<close>

fun validateStages :: "string list \<Rightarrow> FileSystem \<Rightarrow> string list \<Rightarrow> error + unit" where
  "validateStages vs fs [] = Inr ()"
| \<open>validateStages vs fs (stageDir # rest) =
     (if \<not> List.member vs stageDir then
        (case (case stat fs stageDir of
                 None \<Rightarrow> Inl (SystemError ''stat'')
               | Some st \<Rightarrow> if \<not> isDirectory_member st then Inl (Error []) else Inr ()) of
           Inl e \<Rightarrow>
             Inl (Error ''stage-list must contain valid pi-gen stage names "stage[0-5]" and/or valid directories'')
         | Inr u \<Rightarrow> validateStages vs fs rest)
      else validateStages vs fs rest)\<close>

definition silentOptions :: ExecOptions where
  "silentOptions = defaultOptions\<lparr>silent := True\<rparr>"

definition supportedLocales :: "Host \<Rightarrow> error + string list" where
  "supportedLocales h =
     (case which h ''cut'' of
        None \<Rightarrow> Inl (WhichError ''cut'')
      | Some cutCmd \<Rightarrow>
          (case fst (getExecOutput h cutCmd [''-d'', '' '', ''-f1'', ''/usr/share/i18n/SUPPORTED'']
                       silentOptions (\<lambda>stream line u. u) ()) of
             Inl e \<Rightarrow> Inl e
           | Inr out \<Rightarrow> Inr (split CHR 0x0A (stdout out))))"

definition supportedTimezones :: "Host \<Rightarrow> error + string list" where
  "supportedTimezones h =
     (case fst (getExecOutput h ''timedatectl'' [''list-timezones''] silentOptions
                  (\<lambda>stream line u. u) ()) of
        Inl e \<Rightarrow> Inl e
      | Inr out \<Rightarrow> Inr (split CHR 0x0A (stdout out)))"

definition wpaPasswordBad :: "PiGenConfig \<Rightarrow> bool" where
  \<comment> \<open>the condition of the Wi-Fi password check\<close>
  "wpaPasswordBad config =
     (truthy (getProp config ''wpaPassword'') \<and>
      (case getProp config ''wpaPassword'' of
         None \<Rightarrow> False
       | Some pw \<Rightarrow> length pw < 8 \<or> length pw > 63))"

definition validateConfig ::
  "string list \<Rightarrow> Host \<Rightarrow> FileSystem \<Rightarrow> PiGenConfig \<Rightarrow> error + unit" where
  \<open>validateConfig vs h fs config =
     (if \<not> truthy (getProp config ''imgName'') then
        Inl (Error ''image-name must not be empty'')
      else if \<not> includes_str [''bullseye'', ''jessie'', ''stretch'', ''buster'', ''testing'']
                  (map_option toLowerCase (getProp config ''release'')) then
        Inl (Error ''release must be one of ["bullseye", "jessie", "stretch", "buster", "testing"]'')
      else if \<not> includes_str [''none'', ''zip'', ''gz'', ''xz'']
                  (map_option toLowerCase (getProp config ''deployCompression'')) then
        Inl (Error ''compression must be one of ["none", "zip", "gz", "xz"]'')
      else if \<not> test_digit (toString (getProp config ''compressionLevel'')) then
        Inl (Error ''compression-level must be between 0 and 9'')
      else
        (case supportedLocales h of
           Inl e \<Rightarrow> Inl e
         | Inr locales \<Rightarrow>
             if \<not> includes_str locales (getProp config ''localeDefault'') then
               Inl (Error ''locale is not included in the list of supported locales (retrieved from /usr/share/i18n/SUPPORTED)'')
             else if \<not> truthy (getProp config ''targetHostname'') then
               Inl (Error ''hostname must not be empty'')
             else if \<not> truthy (getProp config ''keyboardKeymap'') then
               Inl (Error ''keyboard-keymap must not be empty'')
             else if \<not> truthy (getProp config ''keyboardLayout'') then
               Inl (Error ''keyboard-layout must not be empty'')
             else
               (case supportedTimezones h of
                  Inl e \<Rightarrow> Inl e
                | Inr timezones \<Rightarrow>
                    if \<not> includes_str timezones (getProp config ''timezoneDefault'') then
                      Inl (Error ''timezone is not included in output of "timedatectl list-timezones"'')
                    else if \<not> truthy (getProp config ''firstUserName'') then
                      Inl (Error ''username must not be empty'')
                    else if wpaPasswordBad config then
                      Inl (Error ''wpa-password must be between 8 and 63 characters (or unset)'')
                    else if \<not> truthy (getProp config ''stageList'') then
                      Inl (Error ''stage-list must not be empty'')
                    else validateStages vs fs (split CHR '' '' (toString (getProp config ''stageList''))))))\<close>


section \<open>pi-gen.ts\<close>

subsection \<open>The build log pattern\<close>

text \<open>
  The pattern is \<^verbatim>\<open>^\s*\[(?:\d{2}:?){3}\].*\<close> with the flags \<^verbatim>\<open>g\<close> and \<^verbatim>\<open>m\<close>. No
  alternative of it overlaps with what follows (white space is not a bracket, a colon is
  neither a digit nor a bracket), so matching needs no backtracking. \<open>matchGroup\<close> is
  \<^verbatim>\<open>\d{2}:?\<close>; \<open>matchAt\<close> is the pattern after \<^verbatim>\<open>^\<close>. Both return what is left of the
  input after the match.
\<close>

fun matchGroup :: "string \<Rightarrow> string option" where
  "matchGroup (a # b # rest) =
     (if isDigit a \<and> isDigit b
      then Some (if rest \<noteq> [] \<and> hd rest = CHR '':'' then tl rest else rest)
      else None)"
| "matchGroup s = None"

definition matchAt :: "string \<Rightarrow> string option" where
  "matchAt s =
     (case dropWhile isWhiteSpace s of
        [] \<Rightarrow> None
      | c # r \<Rightarrow>
          if c = CHR ''[''
          then (case Option.bind (Option.bind (matchGroup r) matchGroup) matchGroup of
                  None \<Rightarrow> None
                | Some [] \<Rightarrow> None
                | Some (d # r') \<Rightarrow>
                    if d = CHR '']'' then Some (dropWhile (\<lambda>x. \<not> isLineTerminator x) r')
                    else None)
          else None)"

text \<open>
  The search for the first position at which the pattern matches. With the flag \<^verbatim>\<open>m\<close>,
  \<^verbatim>\<open>^\<close> holds at the start of the input and after a line terminator; the first
  argument tells whether it holds at the current position.
\<close>

fun search :: "bool \<Rightarrow> string \<Rightarrow> string option" where
  "search atLineStart [] = None"
| "search atLineStart (c # cs) =
     (case (if atLineStart then matchAt (c # cs) else None) of
        Some r \<Rightarrow> Some r
      | None \<Rightarrow> search (isLineTerminator c) cs)"

text \<open>
  \<^verbatim>\<open>RegExp.prototype.test\<close> on a pattern with the flag \<^verbatim>\<open>g\<close>: the search starts at
  \<open>lastIndex\<close>; a match stores its end there, a failure stores 0. The result is the
  answer and the new \<open>lastIndex\<close>.
\<close>

definition pattern_test :: "nat \<Rightarrow> string \<Rightarrow> bool \<times> nat" where
  "pattern_test lastIndex line =
     (if lastIndex > length line then (False, 0)
      else (case search (lastIndex = 0 \<or> isLineTerminator (line ! (lastIndex - 1)))
                   (drop lastIndex line) of
              None \<Rightarrow> (False, 0)
            | Some r \<Rightarrow> (True, length line - length r)))"

subsection \<open>The class PiGen\<close>

record PiGen =
  piGenDirectory :: string
  config :: PiGenConfig
  configFilePath :: string
  lastIndex :: nat  \<comment> \<open>of the field \<open>piGenBuildLogPattern\<close>\<close>

definition validatePigenDirectory :: "string list \<Rightarrow> FileSystem \<Rightarrow> string \<Rightarrow> error + bool" where
  "validatePigenDirectory vs fs dir =
     (case stat fs dir of
        None \<Rightarrow> Inl (SystemError ''stat'')
      | Some dirStat \<Rightarrow>
          if \<not> isDirectory dirStat then Inr False
          else
            (case readdir fs dir of
               None \<Rightarrow> Inl (SystemError ''readdir'')
             | Some piGenDirContent \<Rightarrow>
                 (let requiredFiles = [''build-docker.sh'', ''Dockerfile''];
                      requiredDirectories = vs;
                      existingFiles = map name (filter (\<lambda>entry. isFile (kind entry)) piGenDirContent);
                      existingDirectories =
                        map name (filter (\<lambda>entry. isDirectory (kind entry)) piGenDirContent)
                  in if \<not> list_all (\<lambda>file. List.member existingFiles file) requiredFiles
                     then Inr False
                     else if \<not> list_all (\<lambda>d. List.member existingDirectories d) requiredDirectories
                     then Inr False
                     else Inr True)))"

definition newPiGen :: "string list \<Rightarrow> FileSystem \<Rightarrow> string \<Rightarrow> PiGenConfig \<Rightarrow> error + PiGen" where
  \<comment> \<open>the constructor\<close>
  "newPiGen vs fs dir cfg =
     (case validatePigenDirectory vs fs dir of
        Inl e \<Rightarrow> Inl e
      | Inr valid \<Rightarrow>
          if \<not> valid then Inl (Error (''pi-gen directory at '' @ dir @ '' is invalid''))
          else
            (case realpath fs dir of
               None \<Rightarrow> Inl (SystemError ''realpath'')
             | Some p \<Rightarrow>
                 Inr \<lparr>piGenDirectory = dir, config = cfg, configFilePath = p @ ''/config'',
                      lastIndex = 0\<rparr>))"

fun realpathAll :: "FileSystem \<Rightarrow> string list \<Rightarrow> error + string list" where
  \<comment> \<open>\<^verbatim>\<open>.map(userStageDir => fs.realpathSync(userStageDir))\<close>: the first failure throws\<close>
  "realpathAll fs [] = Inr []"
| "realpathAll fs (userStageDir # rest) =
     (case realpath fs userStageDir of
        None \<Rightarrow> Inl (SystemError ''realpath'')
      | Some p \<Rightarrow> (case realpathAll fs rest of Inl e \<Rightarrow> Inl e | Inr ps \<Rightarrow> Inr (p # ps)))"

definition getStagesAsDockerMounts :: "FileSystem \<Rightarrow> PiGen \<Rightarrow> error + string" where
  "getStagesAsDockerMounts fs this =
     (case getProp (config this) ''stageList'' of
        None \<Rightarrow> Inl TypeError
      | Some stageList \<Rightarrow>
          (case realpathAll fs (splitWs stageList) of
             Inl e \<Rightarrow> Inl e
           | Inr dirs \<Rightarrow>
               Inr (join '' '' (map (\<lambda>userStageDir. ''-v '' @ userStageDir @ '':'' @ userStageDir) dirs))))"

datatype Channel = InfoChannel | ErrorChannel

definition emit :: "Channel \<Rightarrow> string \<Rightarrow> Event" where
  \<comment> \<open>\<^verbatim>\<open>stream === 'info' ? core.info(line) : core.error(line)\<close>\<close>
  "emit stream line = (if stream = InfoChannel then Info line else ErrorLine line)"

definition logOutput :: "string \<Rightarrow> bool \<Rightarrow> Channel \<Rightarrow> PiGen \<times> Event list \<Rightarrow> PiGen \<times> Event list" where
  \<comment> \<open>\<^verbatim>\<open>verbose || pattern.test(line)\<close>: with \<open>verbose\<close> set the pattern is not consulted
      and keeps its \<open>lastIndex\<close>\<close>
  "logOutput line verbose stream s =
     (case s of (this, sink) \<Rightarrow>
        if verbose then (this, sink @ [emit stream line])
        else (case pattern_test (lastIndex this) line of
                (matched, li) \<Rightarrow>
                  if matched then (this\<lparr>lastIndex := li\<rparr>, sink @ [emit stream line])
                  else (this\<lparr>lastIndex := li\<rparr>, sink)))"

text \<open>
  The loop of \<open>configureStagesImageExport\<close>. \<^verbatim>\<open>io.rmRF\<close> is started and not awaited, and
  the loop has no other suspension point, so every \<^verbatim>\<open>fs.existsSync\<close> of the loop sees
  the file system as it was when the loop began. The removals requested and the warnings
  issued are returned in order.
\<close>

fun exportLoop :: "string list \<Rightarrow> FileSystem \<Rightarrow> string list \<Rightarrow> Event list" where
  "exportLoop vs fs [] = []"
| "exportLoop vs fs (stageDir # rest) =
     (if List.member vs (basename stageDir) then [RmRF (stageDir @ ''/EXPORT_IMAGE'')]
      else if \<not> existsSync fs (stageDir @ ''/EXPORT_IMAGE'') then
        [Warning (''Custom stage directory '' @ stageDir @
                  '' did not contain an EXPORT_IMAGE file, created it automatically'')]
      else [])
     @ exportLoop vs fs rest"

definition configureStagesImageExport ::
  "string list \<Rightarrow> FileSystem \<Rightarrow> PiGen \<Rightarrow> error + Event list" where
  "configureStagesImageExport vs fs this =
     (case getProp (config this) ''stageList'' of
        None \<Rightarrow> Inl TypeError
      | Some stageList \<Rightarrow> Inr (exportLoop vs fs (splitWs stageList)))"

definition buildOptions :: "PiGen \<Rightarrow> string \<Rightarrow> ExecOptions" where
  \<comment> \<open>the options of the build call; \<open>ignoreReturnCode\<close> is not among them\<close>
  "buildOptions this dockerOpts =
     \<lparr>cwd = Some (piGenDirectory this), env = Some [(''PIGEN_DOCKER_OPTS'', dockerOpts)],
      silent = True, ignoreReturnCode = False\<rparr>"

definition buildListener :: "bool \<Rightarrow> Stream \<Rightarrow> string \<Rightarrow> PiGen \<times> Event list \<Rightarrow> PiGen \<times> Event list" where
  \<comment> \<open>the listeners \<open>stdline\<close> and \<open>errline\<close>\<close>
  "buildListener verbose stream line =
     (case stream of
        StdOut \<Rightarrow> logOutput line verbose InfoChannel
      | StdErr \<Rightarrow> logOutput line verbose ErrorChannel)"

text \<open>
  \<open>build\<close> returns its outcome, the instance as it leaves it, and what it did to the
  file system and the logging sink, in order.
\<close>

definition build ::
  "string list \<Rightarrow> Host \<Rightarrow> FileSystem \<Rightarrow> bool \<Rightarrow> PiGen \<Rightarrow> (error + ExecOutput) \<times> PiGen \<times> Event list" where
  \<open>build vs h fs verbose this =
     (case writeToFile vs fs (config this) (piGenDirectory this) (configFilePath this) of
        (r, cfg, written) \<Rightarrow>
          (let this1 = this\<lparr>config := cfg\<rparr> in
           case r of
             Inl e \<Rightarrow> (Inl e, this1, written)
           | Inr u \<Rightarrow>
               (case configureStagesImageExport vs fs this1 of
                  Inl e \<Rightarrow> (Inl e, this1, written)
                | Inr exported \<Rightarrow>
                    (case getStagesAsDockerMounts fs this1 of
                       Inl e \<Rightarrow> (Inl e, this1, written @ exported)
                     | Inr dockerOpts \<Rightarrow>
                         (case getExecOutput h ''"./build-docker.sh"'' [''-c'', configFilePath this1]
                                 (buildOptions this1 dockerOpts) (buildListener verbose)
                                 (this1, written @ exported) of
                            (out, this2, events) \<Rightarrow> (out, this2, events))))))\<close>


section \<open>Reference definitions and worked inputs\<close>

definition PiGenStages :: "string list" where
  \<comment> \<open>Modelled from the spec: the values of the enumeration \<open>PiGenStages\<close>, whose file
      pi-gen-stages.ts is not among the sources; the spec calls them the known stage
      identifiers, and the message of \<open>validateConfig\<close> names them as stage[0-5]. The
      functions above take them as the parameter \<open>vs\<close>.\<close>
  "PiGenStages = [''stage0'', ''stage1'', ''stage2'', ''stage3'', ''stage4'', ''stage5'']"

definition isSingleDecimalDigit :: "string option \<Rightarrow> bool" where
  \<comment> \<open>the spec's "single decimal digit (0-9)"\<close>
  "isSingleDecimalDigit v =
     List.member (map (\<lambda>c. Some [c]) ''0123456789'') v"

text \<open>
  A build directory \<^verbatim>\<open>/pi-gen\<close> of the required shape, a custom stage directory
  \<^verbatim>\<open>custom-stage\<close> that resolves to \<^verbatim>\<open>/work/custom-stage\<close>, and a regular file
  \<^verbatim>\<open>/etc/hostname\<close>.
\<close>

definition exampleFs :: FileSystem where
  "exampleFs =
     \<lparr>stat = (\<lambda>p. if List.member (''/pi-gen'' # ''custom-stage'' # ''/work/custom-stage''
                                     # map (\<lambda>s. ''/pi-gen/'' @ s) PiGenStages) p
                    then Some Directory
                    else if p = ''/etc/hostname'' then Some RegularFile else None),
      readdir = (\<lambda>p. if p = ''/pi-gen''
                      then Some (\<lparr>name = ''build-docker.sh'', kind = RegularFile\<rparr>
                                 # \<lparr>name = ''Dockerfile'', kind = RegularFile\<rparr>
                                 # map (\<lambda>s. \<lparr>name = s, kind = Directory\<rparr>) PiGenStages)
                      else if List.member (''custom-stage'' # ''/work/custom-stage''
                                           # map (\<lambda>s. ''/pi-gen/'' @ s) PiGenStages) p
                      then Some []
                      else None),
      realpath = (\<lambda>p. if List.member (''/pi-gen'' # ''/work/custom-stage'' # ''/etc/hostname''
                                        # map (\<lambda>s. ''/pi-gen/'' @ s) PiGenStages) p
                       then Some p
                       else if p = ''custom-stage'' then Some ''/work/custom-stage'' else None),
      existsSync = (\<lambda>p. False),
      writeFile = (\<lambda>p. True)\<rparr>"

definition exampleOutput :: "int \<Rightarrow> ExecOutput" where
  \<comment> \<open>what the example build script leaves behind when it exits with the given code\<close>
  "exampleOutput code =
     \<lparr>exitCode = code,
      stdout = ''[12:00:00] Begin'' @ [CHR 0x0A] @ ''[12:00:01] End'' @ [CHR 0x0A] @ ''+ set -e''
               @ [CHR 0x0A],
      stderr = ''debconf: delaying package configuration'' @ [CHR 0x0A]\<rparr>"

text \<open>
  A host with two locales and two time zones, whose build script prints three lines on
  standard output and one on standard error, and exits with the given code.
\<close>

definition exampleHost :: "int \<Rightarrow> Host" where
  \<open>exampleHost code =
     \<lparr>which = (\<lambda>tool. if tool = ''cut'' then Some ''/usr/bin/cut'' else None),
      spawn = (\<lambda>commandLine args options.
                 if commandLine = ''/usr/bin/cut''
                 then Some \<lparr>result = \<lparr>exitCode = 0,
                                       stdout = ''en_GB.UTF-8'' @ [CHR 0x0A] @ ''en_US.UTF-8'' @ [CHR 0x0A],
                                       stderr = []\<rparr>,
                            lines = []\<rparr>
                 else if commandLine = ''timedatectl''
                 then Some \<lparr>result = \<lparr>exitCode = 0,
                                       stdout = ''Europe/Berlin'' @ [CHR 0x0A] @ ''Europe/London'' @ [CHR 0x0A],
                                       stderr = []\<rparr>,
                            lines = []\<rparr>
                 else if commandLine = ''"./build-docker.sh"''
                 then Some \<lparr>result = exampleOutput code,
                            lines = [(StdOut, ''[12:00:00] Begin''), (StdOut, ''[12:00:01] End''),
                                     (StdOut, ''+ set -e''),
                                     (StdErr, ''debconf: delaying package configuration'')]\<rparr>
                 else None)\<rparr>\<close>

definition exampleConfig :: PiGenConfig where
  \<comment> \<open>the default configuration with a stage list that names real stages\<close>
  "exampleConfig = AList.update ''stageList'' ''stage0 custom-stage'' DEFAULT_CONFIG"


definition declarationOrderContent :: "PiGenConfig \<Rightarrow> string" where
  \<comment> \<open>the spec's reading of the file: one line per non-empty field, in the declaration
      order of the fields\<close>
  "declarationOrderContent c =
     join [CHR 0x0A] (map (configLine c) (filter (\<lambda>p. truthy (getProp c p)) fieldNames))"

definition fileLines :: "string \<Rightarrow> string list" where
  \<comment> \<open>the lines of a text file: the empty file has none, any other is cut at its line
      feeds\<close>
  "fileLines content = (if content = [] then [] else split CHR 0x0A content)"

definition laterPasswordConfig :: PiGenConfig where
  \<comment> \<open>the assignment \<^verbatim>\<open>config.firstUserPass = 'raspberry'\<close> on the example: the default
      object has no such property, so it is created last\<close>
  "laterPasswordConfig = AList.update ''firstUserPass'' ''raspberry'' exampleConfig"


definition exampleInstance :: PiGen where
  \<comment> \<open>the instance the constructor builds for the example directory and configuration\<close>
  "exampleInstance =
     \<lparr>piGenDirectory = ''/pi-gen'', config = exampleConfig,
      configFilePath = ''/pi-gen/config'', lastIndex = 0\<rparr>"

definition hasRequiredShape :: "string list \<Rightarrow> FileSystem \<Rightarrow> string \<Rightarrow> bool" where
  \<comment> \<open>the spec's build directory: a directory that directly contains the two required
      files and one directory per known stage identifier\<close>
  "hasRequiredShape vs fs dir =
     (stat fs dir = Some Directory \<and>
      (case readdir fs dir of
         None \<Rightarrow> False
       | Some entries \<Rightarrow>
           list_all (\<lambda>f. List.member entries \<lparr>name = f, kind = RegularFile\<rparr>)
             [''build-docker.sh'', ''Dockerfile''] \<and>
           list_all (\<lambda>d. List.member entries \<lparr>name = d, kind = Directory\<rparr>) vs))"

definition constructAndBuild ::
  "string list \<Rightarrow> Host \<Rightarrow> FileSystem \<Rightarrow> string \<Rightarrow> PiGenConfig \<Rightarrow> bool
     \<Rightarrow> (error + ExecOutput) \<times> Event list" where
  \<comment> \<open>Modelled from the spec: the caller of the class (main.ts) is not among the sources;
      in the spec's control flow the invoker is constructed on the build directory and
      \<open>build\<close> is called on it, \<^verbatim>\<open>new PiGen(piGenDirectory, config).build(verbose)\<close>. A
      constructor that throws ends the expression before \<open>build\<close> is called.\<close>
  "constructAndBuild vs h fs dir cfg verbose =
     (case newPiGen vs fs dir cfg of
        Inl e \<Rightarrow> (Inl e, [])
      | Inr this \<Rightarrow> (case build vs h fs verbose this of (out, this', events) \<Rightarrow> (out, events)))"

definition customStageFs :: FileSystem where
  \<comment> \<open>the example file system with a user's stage directory \<^verbatim>\<open>my-stages/stage2\<close>, which
      resolves to \<^verbatim>\<open>/work/my-stages/stage2\<close> and holds the marker file\<close>
  "customStageFs =
     exampleFs
       \<lparr>stat := (\<lambda>p. if p = ''my-stages/stage2'' \<or> p = ''/work/my-stages/stage2''
                      then Some Directory else stat exampleFs p),
        realpath := (\<lambda>p. if p = ''my-stages/stage2'' \<or> p = ''/work/my-stages/stage2''
                          then Some ''/work/my-stages/stage2'' else realpath exampleFs p),
        existsSync := (\<lambda>p. p = ''/work/my-stages/stage2/EXPORT_IMAGE'')\<rparr>"

definition matchesLogPattern :: "string \<Rightarrow> bool" where
  \<comment> \<open>the line matches the build log pattern: a test that starts at index 0 succeeds\<close>
  "matchesLogPattern line = fst (pattern_test 0 line)"


section \<open>Properties of validateConfig\<close>

lemma getProp_update:
  "getProp (AList.update k v c) k' = (if k' = k then Some v else getProp c k')"
  by (simp add: getProp_def update_conv')

lemma getProp_delete:
  "getProp (AList.delete k c) k' = (if k' = k then None else getProp c k')"
  by (simp add: getProp_def delete_conv')

lemma validateStages_result:
  \<open>validateStages vs fs ts = Inr () \<or>
   validateStages vs fs ts =
     Inl (Error ''stage-list must contain valid pi-gen stage names "stage[0-5]" and/or valid directories'')\<close>
  by (induction ts) (auto split: option.splits)

lemma validateStages_Inl:
  \<open>validateStages vs fs ts = Inl e \<Longrightarrow>
   e = Error ''stage-list must contain valid pi-gen stage names "stage[0-5]" and/or valid directories''\<close>
  using validateStages_result [of vs fs ts] by auto

lemma test_digit_iff: "test_digit (toString v) = isSingleDecimalDigit v"
  by (cases v) (auto simp: test_digit_def toString_def isSingleDecimalDigit_def isDigit_def
      split: list.splits)

lemma getExecOutput_not_Error: "fst (getExecOutput h c args opts l s) \<noteq> Inl (Error m)"
  by (simp add: getExecOutput_def Let_def split: option.splits)

lemma supportedLocales_not_Error [simp]: "supportedLocales h \<noteq> Inl (Error m)"
  using getExecOutput_not_Error
  by (fastforce simp: supportedLocales_def split: option.splits sum.splits)

lemma supportedTimezones_not_Error [simp]: "supportedTimezones h \<noteq> Inl (Error m)"
  using getExecOutput_not_Error
  by (fastforce simp: supportedTimezones_def split: option.splits sum.splits)

text \<open>What a configuration that passes validation must satisfy in its last checks.\<close>

lemma validateConfig_Inr:
  assumes "validateConfig vs h fs cfg = Inr ()"
  shows "isSingleDecimalDigit (getProp cfg ''compressionLevel'') \<and> \<not> wpaPasswordBad cfg \<and>
         truthy (getProp cfg ''stageList'') \<and>
         validateStages vs fs (split CHR '' '' (toString (getProp cfg ''stageList''))) = Inr ()"
  using assms unfolding validateConfig_def test_digit_iff
  by (simp split: if_splits sum.splits)




text \<open>The Wi-Fi password enters validation only through the condition of its check.\<close>

lemma validateConfig_wpa_error:
  assumes "validateConfig vs h fs cfg =
           Inl (Error ''wpa-password must be between 8 and 63 characters (or unset)'')"
  shows "wpaPasswordBad cfg"
  using assms unfolding validateConfig_def
  by (simp split: if_splits sum.splits) (auto dest: validateStages_Inl)

lemma wpaPasswordBad_update:
  "wpaPasswordBad (AList.update ''wpaPassword'' pw cfg) =
     (pw \<noteq> [] \<and> (length pw < 8 \<or> 63 < length pw))"
  by (simp add: wpaPasswordBad_def getProp_update truthy_def)

lemma wpaPasswordBad_delete: "\<not> wpaPasswordBad (AList.delete ''wpaPassword'' cfg)"
  by (simp add: wpaPasswordBad_def getProp_delete truthy_def)

lemma validateConfig_wpa_ok:
  assumes "\<not> wpaPasswordBad (AList.update ''wpaPassword'' pw cfg)"
  shows "validateConfig vs h fs (AList.update ''wpaPassword'' pw cfg) =
         validateConfig vs h fs (AList.delete ''wpaPassword'' cfg)"
proof (cases "supportedLocales h")
  case (Inl e)
  then show ?thesis
    unfolding validateConfig_def by (simp add: getProp_update getProp_delete)
next
  case locales: (Inr ls)
  show ?thesis
  proof (cases "supportedTimezones h")
    case (Inl e)
    with locales show ?thesis
      unfolding validateConfig_def by (simp add: getProp_update getProp_delete)
  next
    case (Inr tz)
    with locales assms wpaPasswordBad_delete [of cfg] show ?thesis
      unfolding validateConfig_def by (simp add: getProp_update getProp_delete)
  qed
qed

lemma validateConfig_wpa_bad:
  assumes "wpaPasswordBad (AList.update ''wpaPassword'' pw cfg)"
      and "validateConfig vs h fs (AList.delete ''wpaPassword'' cfg) = Inr ()"
  shows "validateConfig vs h fs (AList.update ''wpaPassword'' pw cfg) =
         Inl (Error ''wpa-password must be between 8 and 63 characters (or unset)'')"
proof (cases "supportedLocales h")
  case (Inl e)
  with assms(2) show ?thesis
    unfolding validateConfig_def by (simp add: getProp_delete split: if_splits)
next
  case locales: (Inr ls)
  show ?thesis
  proof (cases "supportedTimezones h")
    case (Inl e)
    with locales assms(2) show ?thesis
      unfolding validateConfig_def by (simp add: getProp_delete split: if_splits)
  next
    case (Inr tz)
    with locales assms show ?thesis
      unfolding validateConfig_def
      by (simp add: getProp_update getProp_delete split: if_splits)
  qed
qed

text \<open>
  C9, as amended. For a Wi-Fi password that is present and not the empty string:
  with a length from 8 to 63 the configuration validates exactly as it does without
  any password; with a shorter or longer one validation never succeeds, and fails with
  the password error whenever the rest of the configuration is valid. Without a
  password the password error never arises.
\<close>

theorem wpaPassword_length:
  assumes "pw \<noteq> []"
  shows \<open>(8 \<le> length pw \<and> length pw \<le> 63 \<longrightarrow>
            validateConfig vs h fs (AList.update ''wpaPassword'' pw cfg) =
            validateConfig vs h fs (AList.delete ''wpaPassword'' cfg)) \<and>
         (length pw < 8 \<or> 63 < length pw \<longrightarrow>
            validateConfig vs h fs (AList.update ''wpaPassword'' pw cfg) \<noteq> Inr () \<and>
            (validateConfig vs h fs (AList.delete ''wpaPassword'' cfg) = Inr () \<longrightarrow>
               validateConfig vs h fs (AList.update ''wpaPassword'' pw cfg) =
               Inl (Error ''wpa-password must be between 8 and 63 characters (or unset)''))) \<and>
         validateConfig vs h fs (AList.delete ''wpaPassword'' cfg) \<noteq>
           Inl (Error ''wpa-password must be between 8 and 63 characters (or unset)'')\<close>
proof (intro conjI impI)
  assume "8 \<le> length pw \<and> length pw \<le> 63"
  then have "\<not> wpaPasswordBad (AList.update ''wpaPassword'' pw cfg)"
    by (simp add: wpaPasswordBad_update)
  then show "validateConfig vs h fs (AList.update ''wpaPassword'' pw cfg) =
             validateConfig vs h fs (AList.delete ''wpaPassword'' cfg)"
    by (rule validateConfig_wpa_ok)
next
  assume "length pw < 8 \<or> 63 < length pw"
  with assms have "wpaPasswordBad (AList.update ''wpaPassword'' pw cfg)"
    by (simp add: wpaPasswordBad_update)
  then show "validateConfig vs h fs (AList.update ''wpaPassword'' pw cfg) \<noteq> Inr ()"
    using validateConfig_Inr by blast
next
  assume "length pw < 8 \<or> 63 < length pw"
     and "validateConfig vs h fs (AList.delete ''wpaPassword'' cfg) = Inr ()"
  with assms show "validateConfig vs h fs (AList.update ''wpaPassword'' pw cfg) =
               Inl (Error ''wpa-password must be between 8 and 63 characters (or unset)'')"
    by (simp add: validateConfig_wpa_bad wpaPasswordBad_update)
next
  show "validateConfig vs h fs (AList.delete ''wpaPassword'' cfg) \<noteq>
           Inl (Error ''wpa-password must be between 8 and 63 characters (or unset)'')"
    using validateConfig_wpa_error wpaPasswordBad_delete by blast
qed

text \<open>Lengths 7 and 64 are rejected, lengths 8 and 63 are accepted.\<close>

theorem wpaPassword_length_witness:
  \<open>validateConfig PiGenStages (exampleHost 0) exampleFs
       (AList.update ''wpaPassword'' (replicate 7 CHR ''x'') exampleConfig)
     = Inl (Error ''wpa-password must be between 8 and 63 characters (or unset)'') \<and>
   validateConfig PiGenStages (exampleHost 0) exampleFs
       (AList.update ''wpaPassword'' (replicate 8 CHR ''x'') exampleConfig) = Inr () \<and>
   validateConfig PiGenStages (exampleHost 0) exampleFs
       (AList.update ''wpaPassword'' (replicate 63 CHR ''x'') exampleConfig) = Inr () \<and>
   validateConfig PiGenStages (exampleHost 0) exampleFs
       (AList.update ''wpaPassword'' (replicate 64 CHR ''x'') exampleConfig)
     = Inl (Error ''wpa-password must be between 8 and 63 characters (or unset)'')\<close>
proof -
  have v: "validateConfig PiGenStages (exampleHost 0) exampleFs
             (AList.delete ''wpaPassword'' exampleConfig) = Inr ()"
    by code_simp
  have n: "replicate 7 CHR ''x'' \<noteq> []" "replicate 8 CHR ''x'' \<noteq> []"
          "replicate 63 CHR ''x'' \<noteq> []" "replicate 64 CHR ''x'' \<noteq> []"
    by simp_all
  show ?thesis
    using wpaPassword_length [OF n(1), of PiGenStages "exampleHost 0" exampleFs exampleConfig]
          wpaPassword_length [OF n(2), of PiGenStages "exampleHost 0" exampleFs exampleConfig]
          wpaPassword_length [OF n(3), of PiGenStages "exampleHost 0" exampleFs exampleConfig]
          wpaPassword_length [OF n(4), of PiGenStages "exampleHost 0" exampleFs exampleConfig]
          v
    by simp
qed

text \<open>
  C9 as stated fails for the password that is present and empty: its length 0 is
  outside 8 to 63, and the configuration is accepted.
\<close>

theorem wpaPassword_present_counterexample:
  \<open>getProp (AList.update ''wpaPassword'' [] exampleConfig) ''wpaPassword'' = Some [] \<and>
   \<not> (8 \<le> length ([] :: string) \<and> length ([] :: string) \<le> 63) \<and>
   validateConfig PiGenStages (exampleHost 0) exampleFs
     (AList.update ''wpaPassword'' [] exampleConfig) = Inr ()\<close>
  by code_simp

text \<open>
  C10. A configuration whose Wi-Fi password is the empty string validates exactly as
  the same configuration without a password does, and never fails with the password
  error.
\<close>

theorem wpaPassword_empty_passes:
  \<open>validateConfig vs h fs (AList.update ''wpaPassword'' [] cfg) =
     validateConfig vs h fs (AList.delete ''wpaPassword'' cfg) \<and>
   validateConfig vs h fs (AList.update ''wpaPassword'' [] cfg) \<noteq>
     Inl (Error ''wpa-password must be between 8 and 63 characters (or unset)'')\<close>
proof -
  have ok: "\<not> wpaPasswordBad (AList.update ''wpaPassword'' [] cfg)"
    by (simp add: wpaPasswordBad_update)
  then show ?thesis
    using validateConfig_wpa_ok [OF ok] validateConfig_wpa_error by blast
qed

theorem wpaPassword_empty_passes_witness:
  \<open>validateConfig PiGenStages (exampleHost 0) exampleFs
       (AList.update ''wpaPassword'' [] exampleConfig) = Inr () \<and>
   validateConfig PiGenStages (exampleHost 0) exampleFs
       (AList.delete ''wpaPassword'' exampleConfig) = Inr ()\<close>
proof -
  have "validateConfig PiGenStages (exampleHost 0) exampleFs
          (AList.delete ''wpaPassword'' exampleConfig) = Inr ()"
    by code_simp
  then show ?thesis
    using wpaPassword_empty_passes [of PiGenStages "exampleHost 0" exampleFs exampleConfig]
    by simp
qed

text \<open>What the loop over the stage list accepts: a token passes when it is a known
  stage identifier or \<open>stat\<close> succeeds on it, whatever kind of entry it names.\<close>

lemma validateStages_accepts:
  "(validateStages vs fs ts = Inr ()) = (\<forall>t \<in> set ts. t \<in> set vs \<or> stat fs t \<noteq> None)"
  by (induction ts) (auto simp: isDirectory_member_def split: option.splits)

text \<open>
  C1. The claim requires a token that is neither a known stage identifier nor an
  existing directory to fail validation. The stage list \<^verbatim>\<open>/etc/hostname\<close> names a
  regular file and no known stage, and the configuration is accepted: the check reads
  the member \<^verbatim>\<open>stat.isDirectory\<close> without calling it.
\<close>

theorem stageList_regular_file_accepted:
  \<open>stat exampleFs ''/etc/hostname'' = Some RegularFile \<and>
   \<not> isDirectory RegularFile \<and>
   \<not> List.member PiGenStages ''/etc/hostname'' \<and>
   validateConfig PiGenStages (exampleHost 0) exampleFs
     (AList.update ''stageList'' ''/etc/hostname'' exampleConfig) = Inr ()\<close>
  by code_simp


section \<open>Properties of absolutizePiGenStages and writeToFile\<close>

text \<open>The loop maps \<^verbatim>\<open>fs.realpath\<close> over the tokens from index \<open>i\<close> on, left to right.\<close>

lemma absolutizeLoop_eq:
  "i \<le> length stages \<Longrightarrow>
   absolutizeLoop vs fs d i stages =
     (case those (map (\<lambda>t. realpath fs (if List.member vs t then d @ ''/'' @ t else t))
                    (drop i stages)) of
        None \<Rightarrow> Inl (SystemError ''realpath'')
      | Some ps \<Rightarrow> Inr (take i stages @ ps))"
proof (induction vs fs d i stages rule: absolutizeLoop.induct)
  case (1 vs fs d i stages)
  show ?case
  proof (cases "i < length stages")
    case False
    with "1.prems" show ?thesis by (subst absolutizeLoop.simps) simp
  next
    case True
    let ?arg = "if List.member vs (stages ! i) then d @ ''/'' @ stages ! i else stages ! i"
    have dr: "drop i stages = stages ! i # drop (Suc i) stages"
      using True by (simp add: Cons_nth_drop_Suc)
    show ?thesis
    proof (cases "realpath fs ?arg")
      case None
      with True dr show ?thesis by (subst absolutizeLoop.simps) simp
    next
      case (Some p)
      have ih: "absolutizeLoop vs fs d (Suc i) (stages[i := p]) =
        (case those (map (\<lambda>t. realpath fs (if List.member vs t then d @ ''/'' @ t else t))
                    (drop (Suc i) (stages[i := p]))) of
           None \<Rightarrow> Inl (SystemError ''realpath'')
         | Some ps \<Rightarrow> Inr (take (Suc i) (stages[i := p]) @ ps))"
        using "1.IH" [OF True Some] True by simp
      have tk: "take (Suc i) (stages[i := p]) = take i stages @ [p]"
        using True by (simp add: take_Suc_conv_app_nth)
      have "absolutizeLoop vs fs d i stages = absolutizeLoop vs fs d (Suc i) (stages[i := p])"
        using True Some by (subst absolutizeLoop.simps) simp
      also note ih
      finally show ?thesis
        using Some dr tk by (simp split: option.splits)
    qed
  qed
qed

lemma absolutize_keys:
  assumes "absolutizePiGenStages vs fs cfg dir = Inr cfg'"
  shows "map fst cfg' = map fst cfg"
proof -
  from assms obtain sl ps where sl: "getProp cfg ''stageList'' = Some sl"
    and c': "cfg' = AList.update ''stageList'' ps cfg"
    by (auto simp: absolutizePiGenStages_def split: option.splits sum.splits)
  from sl have "''stageList'' \<in> fst ` set cfg"
    by (auto simp: getProp_def dest: map_of_SomeD intro: rev_image_eqI)
  then show ?thesis
    by (simp add: c' update_keys)
qed

lemma absolutize_other:
  assumes "absolutizePiGenStages vs fs cfg dir = Inr cfg'" and "p \<noteq> ''stageList''"
  shows "getProp cfg' p = getProp cfg p"
proof -
  from assms obtain ps where c': "cfg' = AList.update ''stageList'' ps cfg"
    by (auto simp: absolutizePiGenStages_def split: option.splits sum.splits)
  with assms(2) show ?thesis
    by (simp add: getProp_update)
qed

text \<open>
  C3. Each token of the stage list (split at single spaces) is replaced by the real
  path of \<open>piGenDirectory/token\<close> when the token is a known stage identifier, and by
  the real path of the token itself otherwise; the first failing resolution rejects.
  The \<open>stageList\<close> property is overwritten with these paths joined by spaces: it
  keeps its place in the object and no other property changes. \<open>writeToFile\<close> does
  this first and serializes the rewritten object.
\<close>

theorem absolutizePiGenStages_realpath:
  "(getProp cfg ''stageList'' = Some stageList \<longrightarrow>
      absolutizePiGenStages vs fs cfg dir =
        (case those (map (\<lambda>token. realpath fs (if List.member vs token then dir @ ''/'' @ token
                                               else token))
                       (split CHR '' '' stageList)) of
           None \<Rightarrow> Inl (SystemError ''realpath'')
         | Some paths \<Rightarrow> Inr (AList.update ''stageList'' (join '' '' paths) cfg))) \<and>
   (absolutizePiGenStages vs fs cfg dir = Inr cfg' \<longrightarrow>
      map fst cfg' = map fst cfg \<and>
      (\<forall>p. p \<noteq> ''stageList'' \<longrightarrow> getProp cfg' p = getProp cfg p)) \<and>
   (fst (writeToFile vs fs cfg dir file) = Inr () \<longrightarrow>
      (\<exists>cfg''. absolutizePiGenStages vs fs cfg dir = Inr cfg'' \<and>
        writeToFile vs fs cfg dir file = (Inr (), cfg'', [WriteFile file (configContent cfg'')])))"
proof (intro conjI impI)
  assume "getProp cfg ''stageList'' = Some stageList"
  then show "absolutizePiGenStages vs fs cfg dir =
        (case those (map (\<lambda>token. realpath fs (if List.member vs token then dir @ ''/'' @ token
                                               else token))
                       (split CHR '' '' stageList)) of
           None \<Rightarrow> Inl (SystemError ''realpath'')
         | Some paths \<Rightarrow> Inr (AList.update ''stageList'' (join '' '' paths) cfg))"
    by (simp add: absolutizePiGenStages_def absolutizeLoop_eq split: option.splits)
next
  assume "absolutizePiGenStages vs fs cfg dir = Inr cfg'"
  then show "map fst cfg' = map fst cfg"
    by (rule absolutize_keys)
next
  assume "absolutizePiGenStages vs fs cfg dir = Inr cfg'"
  then show "\<forall>p. p \<noteq> ''stageList'' \<longrightarrow> getProp cfg' p = getProp cfg p"
    using absolutize_other by blast
next
  assume "fst (writeToFile vs fs cfg dir file) = Inr ()"
  then show "\<exists>cfg''. absolutizePiGenStages vs fs cfg dir = Inr cfg'' \<and>
        writeToFile vs fs cfg dir file = (Inr (), cfg'', [WriteFile file (configContent cfg'')])"
    by (auto simp: writeToFile_def split: sum.splits if_splits)
qed

theorem absolutizePiGenStages_realpath_witness:
  "getProp exampleConfig ''stageList'' = Some ''stage0 custom-stage'' \<and>
   split CHR '' '' ''stage0 custom-stage'' = [''stage0'', ''custom-stage''] \<and>
   realpath exampleFs ''/pi-gen/stage0'' = Some ''/pi-gen/stage0'' \<and>
   realpath exampleFs ''custom-stage'' = Some ''/work/custom-stage'' \<and>
   absolutizePiGenStages PiGenStages exampleFs exampleConfig ''/pi-gen'' =
     Inr (AList.update ''stageList'' ''/pi-gen/stage0 /work/custom-stage'' exampleConfig) \<and>
   getProp (AList.update ''stageList'' ''/pi-gen/stage0 /work/custom-stage'' exampleConfig)
      ''imgName'' = Some ''test'' \<and>
   fst (writeToFile PiGenStages exampleFs exampleConfig ''/pi-gen'' ''/pi-gen/config'') = Inr ()"
proof -
  have sl: "getProp exampleConfig ''stageList'' = Some ''stage0 custom-stage''"
    by code_simp
  have w: "fst (writeToFile PiGenStages exampleFs exampleConfig ''/pi-gen'' ''/pi-gen/config'') = Inr ()"
    by code_simp
  have t: "those (map (\<lambda>token. realpath exampleFs
                       (if List.member PiGenStages token then ''/pi-gen'' @ ''/'' @ token else token))
                 (split CHR '' '' ''stage0 custom-stage'')) =
           Some [''/pi-gen/stage0'', ''/work/custom-stage'']"
    by code_simp
  have r: "realpath exampleFs ''/pi-gen/stage0'' = Some ''/pi-gen/stage0''"
          "realpath exampleFs ''custom-stage'' = Some ''/work/custom-stage''"
          "split CHR '' '' ''stage0 custom-stage'' = [''stage0'', ''custom-stage'']"
          "getProp exampleConfig ''imgName'' = Some ''test''"
    by code_simp+
  have a: "absolutizePiGenStages PiGenStages exampleFs exampleConfig ''/pi-gen'' =
     Inr (AList.update ''stageList'' ''/pi-gen/stage0 /work/custom-stage'' exampleConfig)"
    using absolutizePiGenStages_realpath [of exampleConfig "''stage0 custom-stage''" PiGenStages
            exampleFs "''/pi-gen''"] sl t
    by simp
  show ?thesis
    using sl w r a
      absolutizePiGenStages_realpath [of exampleConfig "''stage0 custom-stage''" PiGenStages
            exampleFs "''/pi-gen''"
            "AList.update ''stageList'' ''/pi-gen/stage0 /work/custom-stage'' exampleConfig"
            "''/pi-gen/config''"]
    by simp
qed

text \<open>
  The serialized content, entry by entry: with each property occurring once, the lines
  are those of the properties with a non-empty value, in the order of the object.
\<close>

lemma getProp_distinct:
  "distinct (map fst c) \<Longrightarrow> (k, v) \<in> set c \<Longrightarrow> getProp c k = Some v"
  by (simp add: getProp_def)

lemma configContent_entries:
  assumes "distinct (map fst c)"
  shows \<open>configContent c =
     join [CHR 0x0A]
       (map (\<lambda>(k, v). camelCaseToSnakeCase k @ ''="'' @ v @ ''"'') (filter (\<lambda>(k, v). v \<noteq> []) c))\<close>
proof -
  have f: "filter (\<lambda>p. truthy (getProp c p)) (map fst c) = map fst (filter (\<lambda>(k, v). v \<noteq> []) c)"
    unfolding filter_map
    by (rule arg_cong [where f = "map fst"], rule filter_cong)
       (auto simp: getProp_distinct [OF assms] truthy_def)
  have m: \<open>map (configLine c) (map fst (filter (\<lambda>(k, v). v \<noteq> []) c)) =
           map (\<lambda>(k, v). camelCaseToSnakeCase k @ ''="'' @ v @ ''"'') (filter (\<lambda>(k, v). v \<noteq> []) c)\<close>
    unfolding map_map
    by (rule map_cong) (auto simp: configLine_def toString_def getProp_distinct [OF assms])
  show ?thesis
    by (simp only: configContent_def getOwnPropertyNames_def f m)
qed

lemma declaration_order:
  assumes "map fst c = filter (\<lambda>f. f \<in> set (map fst c)) fieldNames"
  shows "configContent c = declarationOrderContent c"
proof -
  have present: "p \<in> set (map fst c)" if "truthy (getProp c p)" for p
    using that
    by (auto simp: truthy_def getProp_def split: option.splits dest!: map_of_SomeD
             intro: rev_image_eqI)
  have "filter (\<lambda>p. truthy (getProp c p)) (map fst c) =
        filter (\<lambda>p. truthy (getProp c p)) (filter (\<lambda>f. f \<in> set (map fst c)) fieldNames)"
    using arg_cong [OF assms, of "filter (\<lambda>p. truthy (getProp c p))"] .
  also have "\<dots> = filter (\<lambda>p. truthy (getProp c p)) fieldNames"
    unfolding filter_filter
    by (rule filter_cong [OF refl]) (use present in blast)
  finally show ?thesis
    by (simp only: configContent_def declarationOrderContent_def getOwnPropertyNames_def)
qed

lemma camelCaseToSnakeCase_fieldNames:
  "map camelCaseToSnakeCase fieldNames =
     [''IMG_NAME'', ''RELEASE'', ''DEPLOY_COMPRESSION'', ''COMPRESSION_LEVEL'',
      ''LOCALE_DEFAULT'', ''TARGET_HOSTNAME'', ''KEYBOARD_KEYMAP'', ''KEYBOARD_LAYOUT'',
      ''TIMEZONE_DEFAULT'', ''FIRST_USER_NAME'', ''FIRST_USER_PASS'', ''WPA_ESSID'',
      ''WPA_PASSWORD'', ''WPA_COUNTRY'', ''ENABLE_SSH'', ''PUBKEY_SSH_FIRST_USER'',
      ''PUBKEY_ONLY_SSH'', ''STAGE_LIST'', ''USE_QCOW2'']"
  by code_simp

lemma writeToFile_Inr:
  assumes "writeToFile vs fs cfg dir file = (Inr (), cfg', evs)"
  shows "absolutizePiGenStages vs fs cfg dir = Inr cfg' \<and> evs = [WriteFile file (configContent cfg')]"
  using assms by (auto simp: writeToFile_def split: sum.splits if_splits)

text \<open>
  Cutting a text at a separator gives back the pieces it was joined from, as long as no
  piece holds the separator.
\<close>

lemma split_no_separator: "c \<notin> set x \<Longrightarrow> split c x = [x]"
  by (induction x) (auto simp: Let_def)

lemma split_piece: "c \<notin> set x \<Longrightarrow> split c (x @ c # r) = x # split c r"
  by (induction x) (auto simp: Let_def)

lemma split_join:
  "xs \<noteq> [] \<Longrightarrow> \<forall>x \<in> set xs. c \<notin> set x \<Longrightarrow> split c (join [c] xs) = xs"
proof (induction "[c]" xs rule: join.induct)
  case 1
  then show ?case by simp
next
  case (2 x)
  then show ?case by (simp add: split_no_separator)
next
  case (3 x y ys)
  then show ?case by (simp add: split_piece)
qed

lemma join_nonempty: "xs \<noteq> [] \<Longrightarrow> hd xs \<noteq> [] \<Longrightarrow> join sep xs \<noteq> []"
  by (induction sep xs rule: join.induct) auto

lemma fileLines_join:
  assumes "\<forall>x \<in> set xs. x \<noteq> [] \<and> CHR 0x0A \<notin> set x"
  shows "fileLines (join [CHR 0x0A] xs) = xs"
proof (cases xs)
  case Nil
  then show ?thesis by (simp add: fileLines_def)
next
  case (Cons x ys)
  with assms have "join [CHR 0x0A] xs \<noteq> []"
    by (intro join_nonempty) auto
  moreover from Cons assms have "split CHR 0x0A (join [CHR 0x0A] xs) = xs"
    by (intro split_join) auto
  ultimately show ?thesis
    by (simp add: fileLines_def)
qed

lemma key_without_line_feed:
  assumes "List.member fieldNames k"
  shows "CHR 0x0A \<notin> set (camelCaseToSnakeCase k)"
proof -
  from assms have "camelCaseToSnakeCase k \<in> set (map camelCaseToSnakeCase fieldNames)"
    by simp
  then show ?thesis
    unfolding camelCaseToSnakeCase_fieldNames by auto
qed

text \<open>
  C2, as amended. When \<open>writeToFile\<close> succeeds on an object of the interface, the
  content it writes is the entries \<^verbatim>\<open>KEY="value"\<close> of the properties whose value is not
  empty, joined by line feeds, and nothing for the other properties; \<open>KEY\<close> is the
  property name with an underscore before each upper-case letter, upper-cased, which
  for the nineteen fields gives the keys listed. Values are written as they are: when
  no value holds a line feed, the lines of the file are exactly these entries, one per
  non-empty property. The object written is the given one with its stage list
  absolutized. The entries follow the order of the object's own properties; they are
  in declaration order whenever the properties with a non-empty value are, and so
  whenever all properties of the object are.
\<close>

theorem writeToFile_lines:
  assumes "isPiGenConfig cfg"
      and "writeToFile vs fs cfg dir file = (Inr (), cfg', evs)"
  shows \<open>evs = [WriteFile file
                  (join [CHR 0x0A]
                     (map (\<lambda>(k, v). camelCaseToSnakeCase k @ ''="'' @ v @ ''"'')
                        (filter (\<lambda>(k, v). v \<noteq> []) cfg')))] \<and>
         (list_all (\<lambda>(k, v). \<not> List.member v (CHR 0x0A)) cfg' \<longrightarrow>
            evs = [WriteFile file (configContent cfg')] \<and>
            fileLines (configContent cfg') =
              map (\<lambda>(k, v). camelCaseToSnakeCase k @ ''="'' @ v @ ''"'')
                (filter (\<lambda>(k, v). v \<noteq> []) cfg')) \<and>
         map fst cfg' = map fst cfg \<and>
         (\<forall>p. p \<noteq> ''stageList'' \<longrightarrow> getProp cfg' p = getProp cfg p) \<and>
         isPiGenConfig cfg' \<and>
         (map fst cfg = filter (\<lambda>f. f \<in> set (map fst cfg)) fieldNames \<longrightarrow>
            evs = [WriteFile file (declarationOrderContent cfg')]) \<and>
         (filter (\<lambda>p. truthy (getProp cfg' p)) (map fst cfg') =
            filter (\<lambda>p. truthy (getProp cfg' p)) fieldNames \<longrightarrow>
            evs = [WriteFile file (declarationOrderContent cfg')]) \<and>
         map camelCaseToSnakeCase fieldNames =
           [''IMG_NAME'', ''RELEASE'', ''DEPLOY_COMPRESSION'', ''COMPRESSION_LEVEL'',
            ''LOCALE_DEFAULT'', ''TARGET_HOSTNAME'', ''KEYBOARD_KEYMAP'', ''KEYBOARD_LAYOUT'',
            ''TIMEZONE_DEFAULT'', ''FIRST_USER_NAME'', ''FIRST_USER_PASS'', ''WPA_ESSID'',
            ''WPA_PASSWORD'', ''WPA_COUNTRY'', ''ENABLE_SSH'', ''PUBKEY_SSH_FIRST_USER'',
            ''PUBKEY_ONLY_SSH'', ''STAGE_LIST'', ''USE_QCOW2'']\<close>
proof (intro conjI impI)
  from assms(2) have abs: "absolutizePiGenStages vs fs cfg dir = Inr cfg'"
    and evs: "evs = [WriteFile file (configContent cfg')]"
    using writeToFile_Inr by blast+
  show keys: "map fst cfg' = map fst cfg"
    using abs by (rule absolutize_keys)
  with assms(1) show ok: "isPiGenConfig cfg'"
    by (simp add: isPiGenConfig_def)
  then have d: "distinct (map fst cfg')"
    by (simp add: isPiGenConfig_def)
  show \<open>evs = [WriteFile file
                  (join [CHR 0x0A]
                     (map (\<lambda>(k, v). camelCaseToSnakeCase k @ ''="'' @ v @ ''"'')
                        (filter (\<lambda>(k, v). v \<noteq> []) cfg')))]\<close>
    using evs configContent_entries [OF d] by simp
  show "evs = [WriteFile file (configContent cfg')]"
    by (rule evs)
  show \<open>fileLines (configContent cfg') =
              map (\<lambda>(k, v). camelCaseToSnakeCase k @ ''="'' @ v @ ''"'')
                (filter (\<lambda>(k, v). v \<noteq> []) cfg')\<close>
    if plain: "list_all (\<lambda>(k, v). \<not> List.member v (CHR 0x0A)) cfg'"
  proof -
    have \<open>e \<noteq> [] \<and> CHR 0x0A \<notin> set e\<close>
      if \<open>e \<in> set (map (\<lambda>(k, v). camelCaseToSnakeCase k @ ''="'' @ v @ ''"'')
                       (filter (\<lambda>(k, v). v \<noteq> []) cfg'))\<close> for e
    proof -
      from that obtain k v where kv: "(k, v) \<in> set cfg'"
        and e: \<open>e = camelCaseToSnakeCase k @ ''="'' @ v @ ''"''\<close>
        by auto
      from kv ok have "List.member fieldNames k"
        by (force simp: isPiGenConfig_def list_all_iff)
      then have "CHR 0x0A \<notin> set (camelCaseToSnakeCase k)"
        by (rule key_without_line_feed)
      moreover from kv plain have "CHR 0x0A \<notin> set v"
        by (auto simp: list_all_iff)
      ultimately show ?thesis
        using e by simp
    qed
    then have \<open>fileLines (join [CHR 0x0A]
                 (map (\<lambda>(k, v). camelCaseToSnakeCase k @ ''="'' @ v @ ''"'')
                    (filter (\<lambda>(k, v). v \<noteq> []) cfg'))) =
               map (\<lambda>(k, v). camelCaseToSnakeCase k @ ''="'' @ v @ ''"'')
                 (filter (\<lambda>(k, v). v \<noteq> []) cfg')\<close>
      by (intro fileLines_join) blast
    then show ?thesis
      by (simp only: configContent_entries [OF d])
  qed
  show "\<forall>p. p \<noteq> ''stageList'' \<longrightarrow> getProp cfg' p = getProp cfg p"
    using absolutize_other [OF abs] by blast
  show "evs = [WriteFile file (declarationOrderContent cfg')]"
    if "map fst cfg = filter (\<lambda>f. f \<in> set (map fst cfg)) fieldNames"
  proof -
    from that have "map fst cfg' = filter (\<lambda>f. f \<in> set (map fst cfg')) fieldNames"
      by (simp only: keys [symmetric])
    then have "configContent cfg' = declarationOrderContent cfg'"
      by (rule declaration_order)
    with evs show ?thesis
      by (simp only:)
  qed
  show "evs = [WriteFile file (declarationOrderContent cfg')]"
    if "filter (\<lambda>p. truthy (getProp cfg' p)) (map fst cfg') =
        filter (\<lambda>p. truthy (getProp cfg' p)) fieldNames"
    using that evs
    by (simp only: configContent_def declarationOrderContent_def getOwnPropertyNames_def)
  show "map camelCaseToSnakeCase fieldNames =
           [''IMG_NAME'', ''RELEASE'', ''DEPLOY_COMPRESSION'', ''COMPRESSION_LEVEL'',
            ''LOCALE_DEFAULT'', ''TARGET_HOSTNAME'', ''KEYBOARD_KEYMAP'', ''KEYBOARD_LAYOUT'',
            ''TIMEZONE_DEFAULT'', ''FIRST_USER_NAME'', ''FIRST_USER_PASS'', ''WPA_ESSID'',
            ''WPA_PASSWORD'', ''WPA_COUNTRY'', ''ENABLE_SSH'', ''PUBKEY_SSH_FIRST_USER'',
            ''PUBKEY_ONLY_SSH'', ''STAGE_LIST'', ''USE_QCOW2'']"
    by (rule camelCaseToSnakeCase_fieldNames)
qed

theorem writeToFile_lines_witness:
  \<open>isPiGenConfig exampleConfig \<and>
   writeToFile PiGenStages exampleFs exampleConfig ''/pi-gen'' ''/pi-gen/config'' =
     (Inr (),
      AList.update ''stageList'' ''/pi-gen/stage0 /work/custom-stage'' exampleConfig,
      [WriteFile ''/pi-gen/config''
         (join [CHR 0x0A]
            [''IMG_NAME="test"'', ''RELEASE="bullseye"'', ''DEPLOY_COMPRESSION="zip"'',
             ''COMPRESSION_LEVEL="6"'', ''LOCALE_DEFAULT="en_GB.UTF-8"'',
             ''TARGET_HOSTNAME="raspberrypi"'', ''KEYBOARD_KEYMAP="gb"'',
             ''KEYBOARD_LAYOUT="English (UK)"'', ''TIMEZONE_DEFAULT="Europe/London"'',
             ''FIRST_USER_NAME="pi"'', ''ENABLE_SSH="0"'', ''PUBKEY_ONLY_SSH="0"'',
             ''STAGE_LIST="/pi-gen/stage0 /work/custom-stage"'', ''USE_QCOW2="1"''])]) \<and>
   list_all (\<lambda>(k, v). \<not> List.member v (CHR 0x0A))
     (AList.update ''stageList'' ''/pi-gen/stage0 /work/custom-stage'' exampleConfig) \<and>
   fileLines
     (configContent
        (AList.update ''stageList'' ''/pi-gen/stage0 /work/custom-stage'' exampleConfig)) =
     [''IMG_NAME="test"'', ''RELEASE="bullseye"'', ''DEPLOY_COMPRESSION="zip"'',
             ''COMPRESSION_LEVEL="6"'', ''LOCALE_DEFAULT="en_GB.UTF-8"'',
             ''TARGET_HOSTNAME="raspberrypi"'', ''KEYBOARD_KEYMAP="gb"'',
             ''KEYBOARD_LAYOUT="English (UK)"'', ''TIMEZONE_DEFAULT="Europe/London"'',
             ''FIRST_USER_NAME="pi"'', ''ENABLE_SSH="0"'', ''PUBKEY_ONLY_SSH="0"'',
             ''STAGE_LIST="/pi-gen/stage0 /work/custom-stage"'', ''USE_QCOW2="1"''] \<and>
   map fst exampleConfig = filter (\<lambda>f. f \<in> set (map fst exampleConfig)) fieldNames \<and>
   [WriteFile ''/pi-gen/config''
         (join [CHR 0x0A]
            [''IMG_NAME="test"'', ''RELEASE="bullseye"'', ''DEPLOY_COMPRESSION="zip"'',
             ''COMPRESSION_LEVEL="6"'', ''LOCALE_DEFAULT="en_GB.UTF-8"'',
             ''TARGET_HOSTNAME="raspberrypi"'', ''KEYBOARD_KEYMAP="gb"'',
             ''KEYBOARD_LAYOUT="English (UK)"'', ''TIMEZONE_DEFAULT="Europe/London"'',
             ''FIRST_USER_NAME="pi"'', ''ENABLE_SSH="0"'', ''PUBKEY_ONLY_SSH="0"'',
             ''STAGE_LIST="/pi-gen/stage0 /work/custom-stage"'', ''USE_QCOW2="1"''])] =
   [WriteFile ''/pi-gen/config''
      (declarationOrderContent
         (AList.update ''stageList'' ''/pi-gen/stage0 /work/custom-stage'' exampleConfig))]\<close>
proof -
  let ?cfg1 = "AList.update ''stageList'' ''/pi-gen/stage0 /work/custom-stage'' exampleConfig"
  have ok: "isPiGenConfig exampleConfig"
    by code_simp
  have order: "map fst exampleConfig =
               filter (\<lambda>f. f \<in> set (map fst exampleConfig)) fieldNames"
    by code_simp
  have w: \<open>writeToFile PiGenStages exampleFs exampleConfig ''/pi-gen'' ''/pi-gen/config'' =
     (Inr (), ?cfg1,
      [WriteFile ''/pi-gen/config''
         (join [CHR 0x0A]
            [''IMG_NAME="test"'', ''RELEASE="bullseye"'', ''DEPLOY_COMPRESSION="zip"'',
             ''COMPRESSION_LEVEL="6"'', ''LOCALE_DEFAULT="en_GB.UTF-8"'',
             ''TARGET_HOSTNAME="raspberrypi"'', ''KEYBOARD_KEYMAP="gb"'',
             ''KEYBOARD_LAYOUT="English (UK)"'', ''TIMEZONE_DEFAULT="Europe/London"'',
             ''FIRST_USER_NAME="pi"'', ''ENABLE_SSH="0"'', ''PUBKEY_ONLY_SSH="0"'',
             ''STAGE_LIST="/pi-gen/stage0 /work/custom-stage"'', ''USE_QCOW2="1"''])])\<close>
    by code_simp
  have plain: "list_all (\<lambda>(k, v). \<not> List.member v (CHR 0x0A)) ?cfg1"
    by code_simp
  have entries: \<open>map (\<lambda>(k, v). camelCaseToSnakeCase k @ ''="'' @ v @ ''"'')
                   (filter (\<lambda>(k, v). v \<noteq> []) ?cfg1) =
            [''IMG_NAME="test"'', ''RELEASE="bullseye"'', ''DEPLOY_COMPRESSION="zip"'',
             ''COMPRESSION_LEVEL="6"'', ''LOCALE_DEFAULT="en_GB.UTF-8"'',
             ''TARGET_HOSTNAME="raspberrypi"'', ''KEYBOARD_KEYMAP="gb"'',
             ''KEYBOARD_LAYOUT="English (UK)"'', ''TIMEZONE_DEFAULT="Europe/London"'',
             ''FIRST_USER_NAME="pi"'', ''ENABLE_SSH="0"'', ''PUBKEY_ONLY_SSH="0"'',
             ''STAGE_LIST="/pi-gen/stage0 /work/custom-stage"'', ''USE_QCOW2="1"'']\<close>
    by code_simp
  note T = writeToFile_lines [OF ok w]
  from T plain have \<open>fileLines (configContent ?cfg1) =
      map (\<lambda>(k, v). camelCaseToSnakeCase k @ ''="'' @ v @ ''"'') (filter (\<lambda>(k, v). v \<noteq> []) ?cfg1)\<close>
    by blast
  then have lines: \<open>fileLines (configContent ?cfg1) =
            [''IMG_NAME="test"'', ''RELEASE="bullseye"'', ''DEPLOY_COMPRESSION="zip"'',
             ''COMPRESSION_LEVEL="6"'', ''LOCALE_DEFAULT="en_GB.UTF-8"'',
             ''TARGET_HOSTNAME="raspberrypi"'', ''KEYBOARD_KEYMAP="gb"'',
             ''KEYBOARD_LAYOUT="English (UK)"'', ''TIMEZONE_DEFAULT="Europe/London"'',
             ''FIRST_USER_NAME="pi"'', ''ENABLE_SSH="0"'', ''PUBKEY_ONLY_SSH="0"'',
             ''STAGE_LIST="/pi-gen/stage0 /work/custom-stage"'', ''USE_QCOW2="1"'']\<close>
    by (simp only: entries)
  from T order have decl: \<open>[WriteFile ''/pi-gen/config''
         (join [CHR 0x0A]
            [''IMG_NAME="test"'', ''RELEASE="bullseye"'', ''DEPLOY_COMPRESSION="zip"'',
             ''COMPRESSION_LEVEL="6"'', ''LOCALE_DEFAULT="en_GB.UTF-8"'',
             ''TARGET_HOSTNAME="raspberrypi"'', ''KEYBOARD_KEYMAP="gb"'',
             ''KEYBOARD_LAYOUT="English (UK)"'', ''TIMEZONE_DEFAULT="Europe/London"'',
             ''FIRST_USER_NAME="pi"'', ''ENABLE_SSH="0"'', ''PUBKEY_ONLY_SSH="0"'',
             ''STAGE_LIST="/pi-gen/stage0 /work/custom-stage"'', ''USE_QCOW2="1"''])] =
      [WriteFile ''/pi-gen/config'' (declarationOrderContent ?cfg1)]\<close>
    by blast
  from ok w plain lines order decl show ?thesis
    by blast
qed

text \<open>
  A value is written with its line feeds: a public key of two lines makes fifteen
  non-empty properties fill sixteen lines, the last of them the second line of the key.
\<close>

lemma writeToFile_value_with_line_feed:
  \<open>length (filter (\<lambda>(k, v). v \<noteq> [])
      (fst (snd (writeToFile PiGenStages exampleFs
         (AList.update ''pubkeySshFirstUser'' (''ssh-rsa A'' @ [CHR 0x0A] @ ''ssh-rsa B'')
            exampleConfig)
         ''/pi-gen'' ''/pi-gen/config'')))) = 15 \<and>
   concat (map (\<lambda>e. case e of WriteFile f content \<Rightarrow> drop 14 (fileLines content) | _ \<Rightarrow> [])
     (snd (snd (writeToFile PiGenStages exampleFs
         (AList.update ''pubkeySshFirstUser'' (''ssh-rsa A'' @ [CHR 0x0A] @ ''ssh-rsa B'')
            exampleConfig)
         ''/pi-gen'' ''/pi-gen/config'')))) =
     [''PUBKEY_SSH_FIRST_USER="ssh-rsa A'', ''ssh-rsa B"'']\<close>
  by code_simp

text \<open>
  C2 as stated fails on an object whose optional property was assigned after the
  others: \<^verbatim>\<open>FIRST_USER_PASS\<close> is written last, while declaration order puts it after
  \<^verbatim>\<open>FIRST_USER_NAME\<close>.
\<close>

theorem declaration_order_counterexample:
  \<open>isPiGenConfig laterPasswordConfig \<and>
   writeToFile PiGenStages exampleFs laterPasswordConfig ''/pi-gen'' ''/pi-gen/config'' =
     (Inr (),
      AList.update ''stageList'' ''/pi-gen/stage0 /work/custom-stage'' laterPasswordConfig,
      [WriteFile ''/pi-gen/config''
         (join [CHR 0x0A]
            [''IMG_NAME="test"'', ''RELEASE="bullseye"'', ''DEPLOY_COMPRESSION="zip"'',
             ''COMPRESSION_LEVEL="6"'', ''LOCALE_DEFAULT="en_GB.UTF-8"'',
             ''TARGET_HOSTNAME="raspberrypi"'', ''KEYBOARD_KEYMAP="gb"'',
             ''KEYBOARD_LAYOUT="English (UK)"'', ''TIMEZONE_DEFAULT="Europe/London"'',
             ''FIRST_USER_NAME="pi"'', ''ENABLE_SSH="0"'', ''PUBKEY_ONLY_SSH="0"'',
             ''STAGE_LIST="/pi-gen/stage0 /work/custom-stage"'', ''USE_QCOW2="1"'',
             ''FIRST_USER_PASS="raspberry"''])]) \<and>
   declarationOrderContent
       (AList.update ''stageList'' ''/pi-gen/stage0 /work/custom-stage'' laterPasswordConfig) =
     join [CHR 0x0A]
            [''IMG_NAME="test"'', ''RELEASE="bullseye"'', ''DEPLOY_COMPRESSION="zip"'',
             ''COMPRESSION_LEVEL="6"'', ''LOCALE_DEFAULT="en_GB.UTF-8"'',
             ''TARGET_HOSTNAME="raspberrypi"'', ''KEYBOARD_KEYMAP="gb"'',
             ''KEYBOARD_LAYOUT="English (UK)"'', ''TIMEZONE_DEFAULT="Europe/London"'',
             ''FIRST_USER_NAME="pi"'', ''FIRST_USER_PASS="raspberry"'', ''ENABLE_SSH="0"'',
             ''PUBKEY_ONLY_SSH="0"'', ''STAGE_LIST="/pi-gen/stage0 /work/custom-stage"'',
             ''USE_QCOW2="1"''] \<and>
   snd (snd (writeToFile PiGenStages exampleFs laterPasswordConfig ''/pi-gen'' ''/pi-gen/config'')) \<noteq>
     [WriteFile ''/pi-gen/config''
        (declarationOrderContent
           (fst (snd (writeToFile PiGenStages exampleFs laterPasswordConfig ''/pi-gen''
                        ''/pi-gen/config''))))]\<close>
  by code_simp


section \<open>Properties of the class PiGen\<close>

subsection \<open>The constructor\<close>

lemma member_names:
  "List.member (map name (filter (\<lambda>entry. P (kind entry)) entries)) n =
     (\<exists>k. P k \<and> List.member entries \<lparr>name = n, kind = k\<rparr>)"
proof
  assume "List.member (map name (filter (\<lambda>entry. P (kind entry)) entries)) n"
  then obtain e where e: "e \<in> set entries" "P (kind e)" "name e = n"
    by auto
  have "\<lparr>name = n, kind = kind e\<rparr> = e"
    using e(3) by simp
  with e(1) have "\<lparr>name = n, kind = kind e\<rparr> \<in> set entries"
    by (simp only:)
  with e(2) show "\<exists>k. P k \<and> List.member entries \<lparr>name = n, kind = k\<rparr>"
    by auto
next
  assume "\<exists>k. P k \<and> List.member entries \<lparr>name = n, kind = k\<rparr>"
  then obtain k where "P k" "\<lparr>name = n, kind = k\<rparr> \<in> set entries"
    by auto
  then show "List.member (map name (filter (\<lambda>entry. P (kind entry)) entries)) n"
    by (force simp: image_iff)
qed

lemma validatePigenDirectory_True:
  "(validatePigenDirectory vs fs dir = Inr True) = hasRequiredShape vs fs dir"
proof -
  have files: "List.member (map name (filter (\<lambda>entry. isFile (kind entry)) entries)) n =
               List.member entries \<lparr>name = n, kind = RegularFile\<rparr>" for entries n
    unfolding member_names [of isFile] by (simp add: isFile_def)
  have dirs: "List.member (map name (filter (\<lambda>entry. isDirectory (kind entry)) entries)) n =
               List.member entries \<lparr>name = n, kind = Directory\<rparr>" for entries n
    unfolding member_names [of isDirectory] by (simp add: isDirectory_def)
  show ?thesis
    unfolding validatePigenDirectory_def hasRequiredShape_def Let_def files dirs
    by (auto simp: isDirectory_def split: option.splits)
qed

lemma validatePigenDirectory_shape:
  "validatePigenDirectory vs fs dir = Inr b \<Longrightarrow> b = hasRequiredShape vs fs dir"
  using validatePigenDirectory_True [of vs fs dir] by (cases b) auto

text \<open>
  C6, as amended. Provided the path resolves whenever it can be stat-ed (both calls
  follow the same links), the constructor returns an instance exactly when the target
  has the required shape, and throws in every other case. The instance holds the
  directory and the configuration as given, a fresh log pattern, and the config file
  path below the resolved directory. On a directory without the required shape,
  constructing the invoker and calling \<open>build\<close> on it ends with the constructor's
  error and without any effect, whatever the host would answer: no file is written,
  no marker removed, no line logged, no subprocess consulted.
\<close>

theorem newPiGen_requires_shape:
  assumes "stat fs dir \<noteq> None \<longrightarrow> realpath fs dir \<noteq> None"
  shows "((\<exists>this. newPiGen vs fs dir cfg = Inr this) = hasRequiredShape vs fs dir) \<and>
         (\<not> hasRequiredShape vs fs dir \<longrightarrow> (\<exists>e. newPiGen vs fs dir cfg = Inl e)) \<and>
         (\<forall>this. newPiGen vs fs dir cfg = Inr this \<longrightarrow>
            piGenDirectory this = dir \<and> config this = cfg \<and> lastIndex this = 0 \<and>
            Some (configFilePath this) = map_option (\<lambda>p. p @ ''/config'') (realpath fs dir)) \<and>
         (\<not> hasRequiredShape vs fs dir \<longrightarrow>
            (\<exists>e. \<forall>h verbose. constructAndBuild vs h fs dir cfg verbose = (Inl e, [])))"
proof -
  have ok: "\<exists>this. newPiGen vs fs dir cfg = Inr this" if "hasRequiredShape vs fs dir"
  proof -
    from that have v: "validatePigenDirectory vs fs dir = Inr True"
      by (simp add: validatePigenDirectory_True)
    from that have "stat fs dir \<noteq> None"
      by (simp add: hasRequiredShape_def)
    with assms obtain p where "realpath fs dir = Some p"
      by auto
    with v show ?thesis
      by (simp add: newPiGen_def)
  qed
  have shape: "hasRequiredShape vs fs dir" if "newPiGen vs fs dir cfg = Inr this" for this
    using that validatePigenDirectory_shape [of vs fs dir]
    by (auto simp: newPiGen_def split: sum.splits if_splits option.splits)
  have fields: "piGenDirectory this = dir \<and> config this = cfg \<and> lastIndex this = 0 \<and>
            Some (configFilePath this) = map_option (\<lambda>p. p @ ''/config'') (realpath fs dir)"
    if "newPiGen vs fs dir cfg = Inr this" for this
    using that
    by (auto simp: newPiGen_def split: sum.splits if_splits option.splits)
  have bad: "\<exists>e. newPiGen vs fs dir cfg = Inl e" if "\<not> hasRequiredShape vs fs dir"
    using that shape by (cases "newPiGen vs fs dir cfg") auto
  have idle: "\<exists>e. \<forall>h verbose. constructAndBuild vs h fs dir cfg verbose = (Inl e, [])"
    if "\<not> hasRequiredShape vs fs dir"
  proof -
    from bad [OF that] obtain e where "newPiGen vs fs dir cfg = Inl e" ..
    then have "\<forall>h verbose. constructAndBuild vs h fs dir cfg verbose = (Inl e, [])"
      by (simp add: constructAndBuild_def)
    then show ?thesis ..
  qed
  from ok shape fields bad idle show ?thesis
    by blast
qed

theorem newPiGen_requires_shape_witness:
  "hasRequiredShape PiGenStages exampleFs ''/pi-gen'' \<and>
   newPiGen PiGenStages exampleFs ''/pi-gen'' exampleConfig = Inr exampleInstance \<and>
   \<not> hasRequiredShape PiGenStages exampleFs ''/work/custom-stage'' \<and>
   newPiGen PiGenStages exampleFs ''/work/custom-stage'' exampleConfig =
     Inl (Error ''pi-gen directory at /work/custom-stage is invalid'') \<and>
   newPiGen PiGenStages exampleFs ''/nowhere'' exampleConfig = Inl (SystemError ''stat'') \<and>
   (\<exists>e. \<forall>h verbose.
      constructAndBuild PiGenStages h exampleFs ''/work/custom-stage'' exampleConfig verbose =
        (Inl e, []))"
proof -
  have c: "stat exampleFs ''/work/custom-stage'' \<noteq> None \<longrightarrow>
           realpath exampleFs ''/work/custom-stage'' \<noteq> None"
          "stat exampleFs ''/pi-gen'' \<noteq> None \<longrightarrow> realpath exampleFs ''/pi-gen'' \<noteq> None"
    by code_simp+
  have e: "newPiGen PiGenStages exampleFs ''/pi-gen'' exampleConfig = Inr exampleInstance"
          "newPiGen PiGenStages exampleFs ''/work/custom-stage'' exampleConfig =
             Inl (Error ''pi-gen directory at /work/custom-stage is invalid'')"
          "newPiGen PiGenStages exampleFs ''/nowhere'' exampleConfig = Inl (SystemError ''stat'')"
          "\<not> hasRequiredShape PiGenStages exampleFs ''/work/custom-stage''"
    by code_simp+
  from newPiGen_requires_shape [OF c(2), of PiGenStages exampleConfig]
       newPiGen_requires_shape [OF c(1), of PiGenStages exampleConfig] e
  show ?thesis
    by blast
qed

text \<open>
  C6 as stated fails in its last part: \<open>validateConfig\<close> and \<open>writeToFile\<close> are exported
  functions that no constructor guards. On a directory that the constructor rejects,
  the configuration validates and the config file is written.
\<close>

theorem unguarded_write_counterexample:
  "\<not> hasRequiredShape PiGenStages exampleFs ''/work/custom-stage'' \<and>
   newPiGen PiGenStages exampleFs ''/work/custom-stage''
       (AList.update ''stageList'' ''custom-stage'' exampleConfig) =
     Inl (Error ''pi-gen directory at /work/custom-stage is invalid'') \<and>
   validateConfig PiGenStages (exampleHost 0) exampleFs
       (AList.update ''stageList'' ''custom-stage'' exampleConfig) = Inr () \<and>
   writeToFile PiGenStages exampleFs (AList.update ''stageList'' ''custom-stage'' exampleConfig)
       ''/work/custom-stage'' ''/work/custom-stage/config'' =
     (Inr (), AList.update ''stageList'' ''/work/custom-stage'' exampleConfig,
      [WriteFile ''/work/custom-stage/config''
         (configContent (AList.update ''stageList'' ''/work/custom-stage'' exampleConfig))])"
  by code_simp


subsection \<open>Stage export preparation\<close>

lemma exportLoop_RmRF:
  "(RmRF p \<in> set (exportLoop vs fs ds)) =
     (\<exists>d \<in> set ds. List.member vs (basename d) \<and> p = d @ ''/EXPORT_IMAGE'')"
  by (induction ds) auto

lemma exportLoop_Warning:
  "(Warning w \<in> set (exportLoop vs fs ds)) =
     (\<exists>d \<in> set ds. \<not> List.member vs (basename d) \<and> \<not> existsSync fs (d @ ''/EXPORT_IMAGE'') \<and>
        w = ''Custom stage directory '' @ d @
            '' did not contain an EXPORT_IMAGE file, created it automatically'')"
  by (induction ds) auto

lemma exportLoop_kinds:
  "e \<in> set (exportLoop vs fs ds) \<Longrightarrow> (\<exists>p. e = RmRF p) \<or> (\<exists>w. e = Warning w)"
  by (induction ds) (auto split: if_splits)

text \<open>
  C7, as amended. For a stage list split at runs of white space: the marker
  \<^verbatim>\<open>EXPORT_IMAGE\<close> is force-removed exactly in the entries whose base name is a known
  stage identifier; a warning is issued exactly for the entries whose base name is not
  one and whose marker does not exist; and the step does nothing else. So it creates no
  marker, and it never removes the marker of an entry whose base name is not a known
  stage identifier. What it takes for a built-in stage is decided by the base name alone.
\<close>

theorem configureStagesImageExport_markers:
  assumes "getProp (config this) ''stageList'' = Some stageList"
  shows "\<exists>evs. configureStagesImageExport vs fs this = Inr evs \<and>
     (\<forall>p. (RmRF p \<in> set evs) =
          (\<exists>d \<in> set (splitWs stageList). List.member vs (basename d) \<and> p = d @ ''/EXPORT_IMAGE'')) \<and>
     (\<forall>w. (Warning w \<in> set evs) =
          (\<exists>d \<in> set (splitWs stageList).
             \<not> List.member vs (basename d) \<and> \<not> existsSync fs (d @ ''/EXPORT_IMAGE'') \<and>
             w = ''Custom stage directory '' @ d @
                 '' did not contain an EXPORT_IMAGE file, created it automatically'')) \<and>
     (\<forall>e \<in> set evs. (\<exists>p. e = RmRF p) \<or> (\<exists>w. e = Warning w)) \<and>
     (\<forall>d \<in> set (splitWs stageList).
        \<not> List.member vs (basename d) \<longrightarrow> RmRF (d @ ''/EXPORT_IMAGE'') \<notin> set evs)"
proof -
  let ?evs = "exportLoop vs fs (splitWs stageList)"
  have run: "configureStagesImageExport vs fs this = Inr ?evs"
    using assms by (simp add: configureStagesImageExport_def)
  have kept: "RmRF (d @ ''/EXPORT_IMAGE'') \<notin> set ?evs"
    if "\<not> List.member vs (basename d)" for d
    using that by (auto simp: exportLoop_RmRF)
  from run kept exportLoop_RmRF [of _ vs fs "splitWs stageList"]
    exportLoop_Warning [of _ vs fs "splitWs stageList"]
    exportLoop_kinds [of _ vs fs "splitWs stageList"]
  show ?thesis
    by (intro exI [of _ ?evs] conjI) blast+
qed

theorem configureStagesImageExport_markers_witness:
  "getProp (config (exampleInstance\<lparr>config :=
       AList.update ''stageList'' ''/pi-gen/stage0 /work/custom-stage'' exampleConfig\<rparr>))
     ''stageList'' = Some ''/pi-gen/stage0 /work/custom-stage'' \<and>
   configureStagesImageExport PiGenStages exampleFs
     (exampleInstance\<lparr>config :=
        AList.update ''stageList'' ''/pi-gen/stage0 /work/custom-stage'' exampleConfig\<rparr>) =
     Inr [RmRF ''/pi-gen/stage0/EXPORT_IMAGE'',
          Warning ''Custom stage directory /work/custom-stage did not contain an EXPORT_IMAGE file, created it automatically''] \<and>
   List.member (splitWs ''/pi-gen/stage0 /work/custom-stage'') ''/work/custom-stage'' \<and>
   \<not> List.member PiGenStages (basename ''/work/custom-stage'') \<and>
   (\<exists>evs. configureStagesImageExport PiGenStages exampleFs
       (exampleInstance\<lparr>config :=
          AList.update ''stageList'' ''/pi-gen/stage0 /work/custom-stage'' exampleConfig\<rparr>) =
       Inr evs \<and> RmRF (''/work/custom-stage'' @ ''/EXPORT_IMAGE'') \<notin> set evs)"
proof -
  let ?pg = "exampleInstance\<lparr>config :=
       AList.update ''stageList'' ''/pi-gen/stage0 /work/custom-stage'' exampleConfig\<rparr>"
  have sl: "getProp (config ?pg) ''stageList'' = Some ''/pi-gen/stage0 /work/custom-stage''"
    by code_simp
  have ev: "configureStagesImageExport PiGenStages exampleFs ?pg =
     Inr [RmRF ''/pi-gen/stage0/EXPORT_IMAGE'',
          Warning ''Custom stage directory /work/custom-stage did not contain an EXPORT_IMAGE file, created it automatically'']"
    by code_simp
  have entry: "List.member (splitWs ''/pi-gen/stage0 /work/custom-stage'') ''/work/custom-stage''"
    by code_simp
  have custom: "\<not> List.member PiGenStages (basename ''/work/custom-stage'')"
    by code_simp
  from entry have entry': "''/work/custom-stage'' \<in> set (splitWs ''/pi-gen/stage0 /work/custom-stage'')"
    by simp
  from configureStagesImageExport_markers [OF sl, of PiGenStages exampleFs] entry' custom
  have "\<exists>evs. configureStagesImageExport PiGenStages exampleFs ?pg = Inr evs \<and>
          RmRF (''/work/custom-stage'' @ ''/EXPORT_IMAGE'') \<notin> set evs"
    by blast
  with sl ev entry custom show ?thesis
    by blast
qed

text \<open>
  C7 as stated fails in its last part for a user's stage directory whose base name is
  that of a built-in stage. The stage list \<^verbatim>\<open>my-stages/stage2\<close> is no known stage
  identifier: it validates as a directory and is resolved as given, not below the build
  directory. Its marker exists, and the step removes it, without a warning.
\<close>

theorem custom_stage_marker_removed_counterexample:
  "\<not> List.member PiGenStages ''my-stages/stage2'' \<and>
   validateConfig PiGenStages (exampleHost 0) customStageFs
       (AList.update ''stageList'' ''my-stages/stage2'' exampleConfig) = Inr () \<and>
   absolutizePiGenStages PiGenStages customStageFs
       (AList.update ''stageList'' ''my-stages/stage2'' exampleConfig) ''/pi-gen'' =
     Inr (AList.update ''stageList'' ''/work/my-stages/stage2'' exampleConfig) \<and>
   existsSync customStageFs ''/work/my-stages/stage2/EXPORT_IMAGE'' \<and>
   configureStagesImageExport PiGenStages customStageFs
       (exampleInstance\<lparr>config :=
          AList.update ''stageList'' ''/work/my-stages/stage2'' exampleConfig\<rparr>) =
     Inr [RmRF ''/work/my-stages/stage2/EXPORT_IMAGE''] \<and>
   snd (snd (build PiGenStages (exampleHost 0) customStageFs False
               (exampleInstance\<lparr>config :=
                  AList.update ''stageList'' ''my-stages/stage2'' exampleConfig\<rparr>))) =
     [WriteFile ''/pi-gen/config''
        (configContent (AList.update ''stageList'' ''/work/my-stages/stage2'' exampleConfig)),
      RmRF ''/work/my-stages/stage2/EXPORT_IMAGE'',
      Info ''[12:00:00] Begin'']"
  by code_simp


subsection \<open>The build and its exit code\<close>

lemma getExecOutput_Inr:
  assumes "fst (getExecOutput h c args opts l s) = Inr out"
  shows "\<exists>p. spawn h c args opts = Some p \<and> result p = out \<and>
             (ignoreReturnCode opts \<or> exitCode out = 0)"
  using assms
  by (auto simp: getExecOutput_def Let_def split: option.splits if_splits)

lemma build_Inr:
  assumes "fst (build vs h fs verbose this) = Inr out"
  shows "\<exists>this1 dockerOpts s0.
           fst (getExecOutput h ''\"./build-docker.sh\"'' [''-c'', configFilePath this]
                  (buildOptions this1 dockerOpts) (buildListener verbose) (this1, s0)) = Inr out"
proof -
  obtain r cfg1 written where w:
    "writeToFile vs fs (config this) (piGenDirectory this) (configFilePath this) = (r, cfg1, written)"
    by (cases "writeToFile vs fs (config this) (piGenDirectory this) (configFilePath this)") auto
  let ?this1 = "this\<lparr>config := cfg1\<rparr>"
  from assms w obtain exported dockerOpts where
    "fst (getExecOutput h ''\"./build-docker.sh\"'' [''-c'', configFilePath ?this1]
            (buildOptions ?this1 dockerOpts) (buildListener verbose) (?this1, written @ exported)) = Inr out"
    by (auto simp: build_def Let_def split: prod.splits sum.splits)
  then show ?thesis
    by (simp del: PiGen.simps) blast
qed

text \<open>A result object comes back only for exit code 0, and it is the subprocess's own.\<close>

lemma build_Inr_exit_code_zero:
  assumes "fst (build vs h fs verbose this) = Inr out"
  shows "exitCode out = 0 \<and>
         (\<exists>options p. spawn h ''\"./build-docker.sh\"'' [''-c'', configFilePath this] options = Some p \<and>
                       \<not> ignoreReturnCode options \<and> result p = out)"
proof -
  from build_Inr [OF assms] obtain this1 dockerOpts s0 where
    "fst (getExecOutput h ''\"./build-docker.sh\"'' [''-c'', configFilePath this]
           (buildOptions this1 dockerOpts) (buildListener verbose) (this1, s0)) = Inr out"
    by blast
  from getExecOutput_Inr [OF this] obtain p where
    p: "spawn h ''\"./build-docker.sh\"'' [''-c'', configFilePath this]
          (buildOptions this1 dockerOpts) = Some p" "result p = out"
       "ignoreReturnCode (buildOptions this1 dockerOpts) \<or> exitCode out = 0"
    by blast
  have n: "\<not> ignoreReturnCode (buildOptions this1 dockerOpts)"
    by (simp add: buildOptions_def)
  with p show ?thesis
    by blast
qed

text \<open>
  C5, as amended. Once the configuration is written, the stages are prepared and the
  mount options are computed, \<open>build\<close> is the one call of \<^verbatim>\<open>exec.getExecOutput\<close>
  on the build script, made without \<open>ignoreReturnCode\<close>: outcome, instance and
  logged lines are those of that call, unchanged. So a script that cannot be started
  and a script that exits with a non-zero code both make \<open>build\<close> throw the error of
  the call, and only exit code 0 brings back a result object, the subprocess's own.
\<close>

theorem build_is_the_exec_call:
  assumes "writeToFile vs fs (config this) (piGenDirectory this) (configFilePath this) =
             (Inr (), cfg1, written)"
      and "configureStagesImageExport vs fs (this\<lparr>config := cfg1\<rparr>) = Inr exported"
      and "getStagesAsDockerMounts fs (this\<lparr>config := cfg1\<rparr>) = Inr dockerOpts"
  shows "build vs h fs verbose this =
           getExecOutput h ''\"./build-docker.sh\"'' [''-c'', configFilePath this]
             (buildOptions (this\<lparr>config := cfg1\<rparr>) dockerOpts) (buildListener verbose)
             (this\<lparr>config := cfg1\<rparr>, written @ exported) \<and>
         \<not> ignoreReturnCode (buildOptions (this\<lparr>config := cfg1\<rparr>) dockerOpts) \<and>
         fst (build vs h fs verbose this) =
           (case spawn h ''\"./build-docker.sh\"'' [''-c'', configFilePath this]
                   (buildOptions (this\<lparr>config := cfg1\<rparr>) dockerOpts) of
              None \<Rightarrow> Inl (ExecError ''spawn'')
            | Some p \<Rightarrow>
                if exitCode (result p) \<noteq> 0 then Inl (ExecError ''exit code'')
                else Inr (result p))"
proof -
  have call: "build vs h fs verbose this =
           getExecOutput h ''\"./build-docker.sh\"'' [''-c'', configFilePath this]
             (buildOptions (this\<lparr>config := cfg1\<rparr>) dockerOpts) (buildListener verbose)
             (this\<lparr>config := cfg1\<rparr>, written @ exported)"
    using assms by (simp add: build_def Let_def split: prod.splits)
  have opt: "\<not> ignoreReturnCode (buildOptions (this\<lparr>config := cfg1\<rparr>) dockerOpts)"
    by (simp add: buildOptions_def)
  have "fst (getExecOutput h ''\"./build-docker.sh\"'' [''-c'', configFilePath this]
             (buildOptions (this\<lparr>config := cfg1\<rparr>) dockerOpts) (buildListener verbose)
             (this\<lparr>config := cfg1\<rparr>, written @ exported)) =
           (case spawn h ''\"./build-docker.sh\"'' [''-c'', configFilePath this]
                   (buildOptions (this\<lparr>config := cfg1\<rparr>) dockerOpts) of
              None \<Rightarrow> Inl (ExecError ''spawn'')
            | Some p \<Rightarrow>
                if exitCode (result p) \<noteq> 0 then Inl (ExecError ''exit code'')
                else Inr (result p))"
    using opt by (simp add: getExecOutput_def Let_def split: option.splits)
  with call opt show ?thesis
    by simp
qed

theorem build_is_the_exec_call_witness:
  "writeToFile PiGenStages exampleFs (config exampleInstance) (piGenDirectory exampleInstance)
       (configFilePath exampleInstance) =
     (Inr (), AList.update ''stageList'' ''/pi-gen/stage0 /work/custom-stage'' exampleConfig,
      [WriteFile ''/pi-gen/config''
         (configContent
            (AList.update ''stageList'' ''/pi-gen/stage0 /work/custom-stage'' exampleConfig))]) \<and>
   configureStagesImageExport PiGenStages exampleFs
       (exampleInstance\<lparr>config :=
          AList.update ''stageList'' ''/pi-gen/stage0 /work/custom-stage'' exampleConfig\<rparr>) =
     Inr [RmRF ''/pi-gen/stage0/EXPORT_IMAGE'',
          Warning ''Custom stage directory /work/custom-stage did not contain an EXPORT_IMAGE file, created it automatically''] \<and>
   getStagesAsDockerMounts exampleFs
       (exampleInstance\<lparr>config :=
          AList.update ''stageList'' ''/pi-gen/stage0 /work/custom-stage'' exampleConfig\<rparr>) =
     Inr ''-v /pi-gen/stage0:/pi-gen/stage0 -v /work/custom-stage:/work/custom-stage'' \<and>
   map_option result
     (spawn (exampleHost 2) ''\"./build-docker.sh\"'' [''-c'', configFilePath exampleInstance]
        (buildOptions
           (exampleInstance\<lparr>config :=
              AList.update ''stageList'' ''/pi-gen/stage0 /work/custom-stage'' exampleConfig\<rparr>)
           ''-v /pi-gen/stage0:/pi-gen/stage0 -v /work/custom-stage:/work/custom-stage'')) =
     Some (exampleOutput 2) \<and>
   fst (build PiGenStages (exampleHost 2) exampleFs False exampleInstance) =
     Inl (ExecError ''exit code'') \<and>
   fst (build PiGenStages (exampleHost 0) exampleFs False exampleInstance) =
     Inr (exampleOutput 0)"
proof -
  let ?cfg1 = "AList.update ''stageList'' ''/pi-gen/stage0 /work/custom-stage'' exampleConfig"
  let ?opts = "''-v /pi-gen/stage0:/pi-gen/stage0 -v /work/custom-stage:/work/custom-stage''"
  have w: "writeToFile PiGenStages exampleFs (config exampleInstance)
             (piGenDirectory exampleInstance) (configFilePath exampleInstance) =
           (Inr (), ?cfg1, [WriteFile ''/pi-gen/config'' (configContent ?cfg1)])"
    by code_simp
  have e: "configureStagesImageExport PiGenStages exampleFs (exampleInstance\<lparr>config := ?cfg1\<rparr>) =
     Inr [RmRF ''/pi-gen/stage0/EXPORT_IMAGE'',
          Warning ''Custom stage directory /work/custom-stage did not contain an EXPORT_IMAGE file, created it automatically'']"
    by code_simp
  have m: "getStagesAsDockerMounts exampleFs (exampleInstance\<lparr>config := ?cfg1\<rparr>) = Inr ?opts"
    by code_simp
  have s2: "spawn (exampleHost 2) ''\"./build-docker.sh\"'' [''-c'', configFilePath exampleInstance]
              (buildOptions (exampleInstance\<lparr>config := ?cfg1\<rparr>) ?opts) =
            Some \<lparr>result = exampleOutput 2,
                  lines = [(StdOut, ''[12:00:00] Begin''), (StdOut, ''[12:00:01] End''),
                           (StdOut, ''+ set -e''),
                           (StdErr, ''debconf: delaying package configuration'')]\<rparr>"
    by (simp add: exampleHost_def)
  have s0: "spawn (exampleHost 0) ''\"./build-docker.sh\"'' [''-c'', configFilePath exampleInstance]
              (buildOptions (exampleInstance\<lparr>config := ?cfg1\<rparr>) ?opts) =
            Some \<lparr>result = exampleOutput 0,
                  lines = [(StdOut, ''[12:00:00] Begin''), (StdOut, ''[12:00:01] End''),
                           (StdOut, ''+ set -e''),
                           (StdErr, ''debconf: delaying package configuration'')]\<rparr>"
    by (simp add: exampleHost_def)
  have c: "exitCode (exampleOutput 2) \<noteq> 0" "exitCode (exampleOutput 0) = 0"
    by (simp_all add: exampleOutput_def)
  have b2: "fst (build PiGenStages (exampleHost 2) exampleFs False exampleInstance) =
            Inl (ExecError ''exit code'')"
    using build_is_the_exec_call [OF w e m, of "exampleHost 2" False, THEN conjunct2,
            THEN conjunct2] s2 c
    by (simp del: PiGen.simps)
  have b0: "fst (build PiGenStages (exampleHost 0) exampleFs False exampleInstance) =
            Inr (exampleOutput 0)"
    using build_is_the_exec_call [OF w e m, of "exampleHost 0" False, THEN conjunct2,
            THEN conjunct2] s0 c
    by (simp del: PiGen.simps)
  from w e m s2 b2 b0 show ?thesis
    by (simp del: PiGen.simps)
qed

text \<open>
  C5 as stated fails when the build script exits with code 1: no result object comes
  back, \<open>build\<close> ends with the error of the exec call.
\<close>

theorem build_nonzero_exit_counterexample:
  "newPiGen PiGenStages exampleFs ''/pi-gen'' exampleConfig = Inr exampleInstance \<and>
   map_option result
     (spawn (exampleHost 1) ''\"./build-docker.sh\"'' [''-c'', ''/pi-gen/config'']
        (buildOptions exampleInstance
           ''-v /pi-gen/stage0:/pi-gen/stage0 -v /work/custom-stage:/work/custom-stage'')) =
     Some (exampleOutput 1) \<and>
   exitCode (exampleOutput 1) = 1 \<and>
   fst (build PiGenStages (exampleHost 1) exampleFs False exampleInstance) =
     Inl (ExecError ''exit code'') \<and>
   fst (build PiGenStages (exampleHost 1) exampleFs False exampleInstance) \<noteq>
     Inr (exampleOutput 1)"
  by code_simp

subsection \<open>Filtering the build output\<close>

text \<open>
  With \<open>verbose\<close> every line is surfaced. Without it, a line is surfaced exactly when it
  matches, provided \<open>lastIndex\<close> is 0; after a match \<open>lastIndex\<close> is positive, and then a
  line without line terminators is suppressed whatever it holds.
\<close>

lemma search_stale: "\<forall>c \<in> set cs. \<not> isLineTerminator c \<Longrightarrow> search False cs = None"
  by (induction cs) auto

lemma pattern_test_stale:
  assumes "0 < li" and "\<forall>c \<in> set line. \<not> isLineTerminator c"
  shows "pattern_test li line = (False, 0)"
proof (cases "li > length line")
  case True
  then show ?thesis by (simp add: pattern_test_def)
next
  case False
  with assms(1) have "line ! (li - 1) \<in> set line"
    by simp
  with assms(2) have "\<not> isLineTerminator (line ! (li - 1))"
    by blast
  moreover from assms(2) have "\<forall>c \<in> set (drop li line). \<not> isLineTerminator c"
    by (meson in_set_dropD)
  ultimately show ?thesis
    using False assms(1) by (simp add: pattern_test_def search_stale)
qed

lemma logOutput_verbose: "logOutput line True stream (this, sink) = (this, sink @ [emit stream line])"
  by (simp add: logOutput_def)

lemma logOutput_fresh:
  assumes "lastIndex this = 0"
  shows "snd (logOutput line verbose stream (this, sink)) =
         (if verbose \<or> matchesLogPattern line then sink @ [emit stream line] else sink)"
  using assms by (simp add: logOutput_def matchesLogPattern_def split: prod.splits)

lemma logOutput_stale:
  assumes "0 < lastIndex this" and "\<forall>c \<in> set line. \<not> isLineTerminator c"
  shows "logOutput line False stream (this, sink) = (this\<lparr>lastIndex := 0\<rparr>, sink)"
  using pattern_test_stale [OF assms] by (simp add: logOutput_def)

text \<open>
  C4. The claim requires every line that matches the pattern to be surfaced. Of two
  consecutive matching lines without \<open>verbose\<close>, the first is surfaced and leaves
  \<open>lastIndex\<close> at 16; the second is tested from there and suppressed. The example build
  logs only the first of its two timestamped lines.
\<close>

theorem logOutput_second_match_suppressed:
  "matchesLogPattern ''[12:00:00] Begin'' \<and> matchesLogPattern ''[12:00:01] End'' \<and>
   logOutput ''[12:00:00] Begin'' False InfoChannel (exampleInstance, []) =
     (exampleInstance\<lparr>lastIndex := 16\<rparr>, [Info ''[12:00:00] Begin'']) \<and>
   logOutput ''[12:00:01] End'' False InfoChannel
     (exampleInstance\<lparr>lastIndex := 16\<rparr>, [Info ''[12:00:00] Begin'']) =
     (exampleInstance, [Info ''[12:00:00] Begin'']) \<and>
   snd (snd (build PiGenStages (exampleHost 0) exampleFs False exampleInstance)) =
     [WriteFile ''/pi-gen/config''
        (configContent (AList.update ''stageList'' ''/pi-gen/stage0 /work/custom-stage'' exampleConfig)),
      RmRF ''/pi-gen/stage0/EXPORT_IMAGE'',
      Warning ''Custom stage directory /work/custom-stage did not contain an EXPORT_IMAGE file, created it automatically'',
      Info ''[12:00:00] Begin'']"
  by code_simp

end
